theory Spec2Isabelle
  imports Main "HOL-Library.Sublist" "HOL-Library.Multiset"
begin

section \<open>JavaScript values and strings\<close>

text \<open>
  The module is JavaScript. The configuration and the JSON answers of the NAS hold
  dynamically typed values; the code tests them for truthiness, compares them with
  \<^verbatim>\<open>===\<close> and interpolates them into template literals. Numbers are modelled as
  mathematical integers (exact below \<open>2^53\<close>; the values here are ports, ids, counts and
  Unix timestamps), with \<open>JNaN\<close> for the one not-a-number that \<^verbatim>\<open>parseInt\<close> can return.
  JavaScript prints an integer digit by digit as long as it is a safe integer
  (\<open>safe_integer\<close> below); statements about printed numbers assume that.
  Strings are byte lists: a JavaScript string is represented by its UTF-8 encoding, which
  is what \<^verbatim>\<open>encodeURIComponent\<close> and \<^verbatim>\<open>URLSearchParams\<close> percent-encode byte by
  byte (strings with a lone surrogate, on which \<^verbatim>\<open>encodeURIComponent\<close> throws, have no
  UTF-8 encoding and are outside the model).
\<close>

datatype jsval = JUndefined | JNull | JBool bool | JNum int | JNaN | JStr string

fun truthy :: "jsval \<Rightarrow> bool" where
  "truthy JUndefined = False"
| "truthy JNull = False"
| "truthy (JBool b) = b"
| "truthy (JNum n) = (n \<noteq> 0)"
| "truthy JNaN = False"
| "truthy (JStr s) = (s \<noteq> [])"

fun string_of_nat :: "nat \<Rightarrow> string" where
  "string_of_nat n =
     (if n < 10 then [''0123456789'' ! n]
      else string_of_nat (n div 10) @ [''0123456789'' ! (n mod 10)])"

declare string_of_nat.simps [simp del]

definition string_of_int :: "int \<Rightarrow> string" where
  "string_of_int i = (if i < 0 then CHR ''-'' # string_of_nat (nat (- i)) else string_of_nat (nat i))"

text \<open>String conversion, as done by a template literal \<^verbatim>\<open>`${v}`\<close>, by \<^verbatim>\<open>v.toString()\<close>
  on a number, string or boolean, and by \<^verbatim>\<open>URLSearchParams\<close> on its values.\<close>

fun js_String :: "jsval \<Rightarrow> string" where
  "js_String JUndefined = ''undefined''"
| "js_String JNull = ''null''"
| "js_String (JBool b) = (if b then ''true'' else ''false'')"
| "js_String (JNum n) = string_of_int n"
| "js_String JNaN = ''NaN''"
| "js_String (JStr s) = s"

text \<open>\<^verbatim>\<open>Number.isSafeInteger\<close> on a number: magnitude below \<open>2^53\<close>. On these
  \<open>js_String\<close> is what JavaScript prints; beyond, JavaScript rounds and, from \<open>10^21\<close>,
  switches to exponent notation. Values that are not numbers pass.\<close>

definition safe_integer :: "jsval \<Rightarrow> bool" where
  "safe_integer v = (case v of JNum n \<Rightarrow> \<bar>n\<bar> < 9007199254740992 | _ \<Rightarrow> True)"

text \<open>\<^verbatim>\<open>a || b\<close> on values.\<close>

definition js_or :: "jsval \<Rightarrow> jsval \<Rightarrow> jsval" where
  "js_or a b = (if truthy a then a else b)"

definition startsWith :: "string \<Rightarrow> string \<Rightarrow> bool" where
  "startsWith s p = prefix p s"

text \<open>\<^verbatim>\<open>s.includes(n)\<close>: \<open>n\<close> occurs in \<open>s\<close> as a contiguous substring.\<close>

fun str_includes :: "string \<Rightarrow> string \<Rightarrow> bool" where
  "str_includes [] n = (n = [])"
| "str_includes (c # cs) n = (prefix n (c # cs) \<or> str_includes cs n)"

definition hexdigit :: "nat \<Rightarrow> char" where
  "hexdigit n = ''0123456789ABCDEF'' ! n"

definition percent :: "char \<Rightarrow> string" where
  "percent c = [CHR ''%'', hexdigit (of_char c div 16), hexdigit (of_char c mod 16)]"

definition alphanumerics :: string where
  "alphanumerics = ''ABCDEFGHIJKLMNOPQRSTUVWXYZabcdefghijklmnopqrstuvwxyz0123456789''"

text \<open>\<^verbatim>\<open>encodeURIComponent\<close> keeps the letters, the digits and \<^verbatim>\<open>- _ . ! ~ * ' ( )\<close>,
  and writes every other byte of the UTF-8 encoding as \<^verbatim>\<open>%XX\<close>.\<close>

definition uri_unreserved :: string where
  "uri_unreserved = alphanumerics @ ''-_.!~*()'' @ [CHR 0x27]"

definition encodeURIComponent :: "string \<Rightarrow> string" where
  "encodeURIComponent s = concat (map (\<lambda>c. if c \<in> set uri_unreserved then [c] else percent c) s)"

text \<open>\<^verbatim>\<open>URLSearchParams.prototype.toString\<close>: the form-urlencoded serializer keeps the
  letters, the digits and \<^verbatim>\<open>* - . _\<close>, writes a space as \<^verbatim>\<open>+\<close> and every other byte as
  \<^verbatim>\<open>%XX\<close>; pairs are written \<^verbatim>\<open>name=value\<close> and joined by \<^verbatim>\<open>&\<close> in insertion order.\<close>

definition form_encode :: "string \<Rightarrow> string" where
  "form_encode s = concat (map (\<lambda>c. if c \<in> set (alphanumerics @ ''*-._'') then [c]
                                      else if c = CHR '' '' then ''+'' else percent c) s)"

fun join_amp :: "string list \<Rightarrow> string" where
  "join_amp [] = []"
| "join_amp [x] = x"
| "join_amp (x # y # ys) = x @ ''&'' @ join_amp (y # ys)"

type_synonym params = "(string \<times> string) list"

definition params_toString :: "params \<Rightarrow> string" where
  "params_toString ps = join_amp (map (\<lambda>(k, v). form_encode k @ ''='' @ form_encode v) ps)"

text \<open>\<^verbatim>\<open>params.set(k, v)\<close>: replaces the value of the first pair named \<open>k\<close> and removes the
  other pairs of that name, or appends the pair.\<close>

fun params_set :: "string \<Rightarrow> string \<Rightarrow> params \<Rightarrow> params" where
  "params_set k v [] = [(k, v)]"
| "params_set k v ((k', v') # ps) =
     (if k' = k then (k, v) # filter (\<lambda>(a, b). a \<noteq> k) ps else (k', v') # params_set k v ps)"

section \<open>The node helper: configuration, state and the outside world\<close>

record config =
  serverUrl :: string
  account :: string
  password :: string
  port :: jsval
  secure :: jsval
  sharedSpace :: jsval
  albumId :: jsval
  folderId :: jsval
  numPhotos :: jsval
  thumbnailSize :: string
  shuffle :: jsval
  sortBy :: jsval
  refreshInterval :: jsval

text \<open>A raw listing item, as the browse API returns it. \<open>additional\<close> and \<open>thumbnail\<close> are
  objects or absent; the thumbnail object maps size names (and \<^verbatim>\<open>cache_key\<close>) to values, and is
  read with \<open>map_of\<close>. \<open>item_time\<close> is the capture time, a Unix timestamp, or \<open>None\<close> when
  the item has no \<^verbatim>\<open>time\<close> field (it then reads as undefined).\<close>

record resolution =
  width :: jsval
  height :: jsval

record additional_info =
  thumbnail :: "(string \<times> jsval) list option"
  resolution :: "resolution option"

record raw_item =
  item_id :: jsval
  item_filename :: jsval
  item_time :: "int option"
  additional :: "additional_info option"

text \<open>The normalized photo handed to the display layer.\<close>

record photo =
  photo_id :: jsval
  photo_filename :: jsval
  url :: string
  photo_width :: jsval
  photo_height :: jsval
  photo_time :: "int option"

datatype agent = HttpsAgent | HttpAgent

record request =
  req_url :: string
  req_agent :: agent
  req_referer :: "string option"

text \<open>What the code reads of an API answer: \<^verbatim>\<open>success\<close>, and under \<^verbatim>\<open>data\<close> the
  fields \<^verbatim>\<open>sid\<close> and \<^verbatim>\<open>list\<close> (\<open>None\<close>: no such array). An entry of the list is an
  item object, or \<^verbatim>\<open>null\<close> (\<open>None\<close>).\<close>

record api_data =
  d_sid :: jsval
  d_list :: "raw_item option list option"

record api_json =
  success :: bool
  data :: "api_data option"

text \<open>The outcome of \<^verbatim>\<open>await synoFetch(..)\<close> followed by \<^verbatim>\<open>await response.json()\<close>: either
  of them throws (network error, body that is not JSON), or the body parses to
  \<^verbatim>\<open>null\<close>, or to an object.\<close>

datatype reply = Threw string | JsonNull | Json api_json

text \<open>The device token file: absent, unreadable (reading or parsing throws), or a JSON
  object whose \<^verbatim>\<open>device_id\<close> field is the given value.\<close>

datatype token_file = NoFile | Unreadable | TokenJson jsval

text \<open>The upstream answer seen by the thumbnail proxy.\<close>

record http_response =
  status :: nat
  statusText :: string
  content_type :: "string option"
  body :: string

datatype fetch_result = FetchThrew string | Response http_response

text \<open>The world outside one run of the helper: the token file, the answers of the NAS to
  API requests and to proxied downloads, and the outcomes of \<^verbatim>\<open>Math.random\<close> (the draw
  for loop index \<open>i\<close>, reduced to the range \<open>0..i\<close> that
  \<^verbatim>\<open>Math.floor(Math.random() * (i + 1))\<close> takes). One fetch cycle sends two different
  requests, so an answer per request describes it.\<close>

record world =
  token_file :: token_file
  api :: "request \<Rightarrow> reply"
  upstream :: "request \<Rightarrow> fetch_result"
  random :: "nat \<Rightarrow> nat"

datatype error_payload = Message string | TypeErrorMessage

datatype notification = SYNOLOGY_PHOTOS_DATA "photo list" | SYNOLOGY_PHOTOS_ERROR error_payload

text \<open>The helper's fields, with the two effects made explicit: \<open>wire\<close> lists the requests
  handed to \<^verbatim>\<open>fetch\<close>, \<open>outbox\<close> the socket notifications sent, both oldest first.\<close>

record helper_state =
  config :: "config option"
  sid :: jsval
  photos :: "photo list"
  refreshTimer :: "jsval option"
  wire :: "request list"
  outbox :: "notification list"

text \<open>\<^verbatim>\<open>start\<close> sets no configuration: \<^verbatim>\<open>this.config\<close> stays undefined until the first
  \<^verbatim>\<open>SYNOLOGY_PHOTOS_FETCH\<close> notification arrives.\<close>

definition start :: helper_state where
  "start = \<lparr>config = None, sid = JNull, photos = [], refreshTimer = None, wire = [], outbox = []\<rparr>"

text \<open>\<^verbatim>\<open>synoFetch(url, serverUrl)\<close> chooses the agent by the URL's first letters and adds the
  \<^verbatim>\<open>Referer\<close> header when a server name is given; the model returns the request it hands to
  \<^verbatim>\<open>fetch\<close>, and the callers look its answer up in the world.\<close>

definition synoFetch :: "string \<Rightarrow> string \<Rightarrow> request" where
  "synoFetch u server =
     \<lparr>req_url = u,
      req_agent = (if startsWith u ''https'' then HttpsAgent else HttpAgent),
      req_referer = (if server \<noteq> [] then Some (''https://'' @ server @ ''/'') else None)\<rparr>"

definition sendSocketNotification :: "notification \<Rightarrow> helper_state \<Rightarrow> helper_state" where
  "sendSocketNotification n st = st\<lparr>outbox := outbox st @ [n]\<rparr>"

text \<open>\<^verbatim>\<open>loadDeviceToken\<close>: the \<^verbatim>\<open>device_id\<close> of the token file if there is a truthy one,
  \<^verbatim>\<open>null\<close> otherwise, also when reading the file throws.\<close>

definition loadDeviceToken :: "world \<Rightarrow> jsval" where
  "loadDeviceToken w =
     (case token_file w of
        NoFile \<Rightarrow> JNull
      | Unreadable \<Rightarrow> JNull
      | TokenJson d \<Rightarrow> (if truthy d then d else JNull))"

text \<open>\<^verbatim>\<open>isQuickConnect\<close>, \<^verbatim>\<open>getBaseUrl\<close> (protocol \<^verbatim>\<open>secure !== false ? "https" : "http"\<close>)
  and \<^verbatim>\<open>getApiPath\<close>.\<close>

definition isQuickConnect :: "config \<Rightarrow> bool" where
  "isQuickConnect cfg = str_includes (serverUrl cfg) ''quickconnect.to''"

definition getBaseUrl :: "config \<Rightarrow> string" where
  "getBaseUrl cfg =
     (let protocol = (if secure cfg \<noteq> JBool False then ''https'' else ''http'');
          portStr = (if truthy (port cfg) then '':'' @ js_String (port cfg) else [])
      in protocol @ ''://'' @ serverUrl cfg @ portStr)"

definition getApiPath :: "config \<Rightarrow> string" where
  "getApiPath cfg = (if isQuickConnect cfg then ''/webapi'' else ''/photo/webapi'')"

text \<open>\<^verbatim>\<open>login\<close> builds its own base URL (protocol \<^verbatim>\<open>secure ? "https" : "http"\<close>), the
  parameters (with \<^verbatim>\<open>device_id\<close> and \<^verbatim>\<open>device_name\<close> set when a device token was loaded) and
  the request to \<^verbatim>\<open>auth.cgi\<close>. It returns true, and stores the session id, exactly when the
  answer has a truthy \<^verbatim>\<open>success\<close>, a \<^verbatim>\<open>data\<close> object and a truthy \<^verbatim>\<open>data.sid\<close>; every throw
  inside its \<^verbatim>\<open>try\<close> makes it return false.\<close>

definition login_baseUrl :: "config \<Rightarrow> string" where
  "login_baseUrl cfg =
     (let protocol = (if truthy (secure cfg) then ''https'' else ''http'');
          portStr = (if truthy (port cfg) then '':'' @ js_String (port cfg) else [])
      in protocol @ ''://'' @ serverUrl cfg @ portStr)"

definition login_params :: "config \<Rightarrow> jsval \<Rightarrow> params" where
  "login_params cfg deviceId =
     (let ps = [(''api'', ''SYNO.API.Auth''), (''version'', ''6''), (''method'', ''login''),
                (''account'', account cfg), (''passwd'', password cfg)]
      in if truthy deviceId
         then params_set ''device_name'' ''MagicMirror'' (params_set ''device_id'' (js_String deviceId) ps)
         else ps)"

definition login_request :: "config \<Rightarrow> jsval \<Rightarrow> request" where
  "login_request cfg deviceId =
     (let loginUrl = login_baseUrl cfg @ getApiPath cfg @ ''/auth.cgi''
      in synoFetch (loginUrl @ ''?'' @ params_toString (login_params cfg deviceId)) (serverUrl cfg))"

definition login :: "world \<Rightarrow> config \<Rightarrow> helper_state \<Rightarrow> bool \<times> helper_state" where
  "login w cfg st =
     (let req = login_request cfg (loadDeviceToken w);
          st1 = st\<lparr>wire := wire st @ [req]\<rparr>
      in case api w req of
           Threw m \<Rightarrow> (False, st1)
         | JsonNull \<Rightarrow> (False, st1)
         | Json d \<Rightarrow>
             (case data d of
                None \<Rightarrow> (False, st1)
              | Some dd \<Rightarrow>
                  if success d \<and> truthy (d_sid dd) then (True, st1\<lparr>sid := d_sid dd\<rparr>)
                  else (False, st1)))"

text \<open>The four source functions build the same parameter object, in this order, with the
  API name of the space and, for an album or a folder, its id between \<^verbatim>\<open>limit\<close> and
  \<^verbatim>\<open>_sid\<close>; the request goes to \<^verbatim>\<open>entry.cgi\<close> under \<^verbatim>\<open>getBaseUrl()\<close> and
  \<^verbatim>\<open>getApiPath()\<close>.\<close>

definition browse_params :: "string \<Rightarrow> jsval \<Rightarrow> jsval \<Rightarrow> params \<Rightarrow> jsval \<Rightarrow> params" where
  "browse_params apiName offset limit extra s =
     [(''api'', apiName), (''version'', ''1''), (''method'', ''list''), (''type'', ''photo''),
      (''offset'', js_String offset), (''limit'', js_String limit)]
     @ extra @
     [(''_sid'', js_String s), (''additional'', ''[\"thumbnail\",\"resolution\"]'')]"

definition entry_request :: "config \<Rightarrow> params \<Rightarrow> request" where
  "entry_request cfg ps =
     (let u = getBaseUrl cfg @ getApiPath cfg @ ''/entry.cgi''
      in synoFetch (u @ ''?'' @ params_toString ps) (serverUrl cfg))"

definition fetchPersonalPhotos_params :: "helper_state \<Rightarrow> jsval \<Rightarrow> jsval \<Rightarrow> params" where
  "fetchPersonalPhotos_params st offset limit =
     browse_params ''SYNO.Foto.Browse.Item'' offset limit [] (sid st)"

definition fetchTeamPhotos_params :: "helper_state \<Rightarrow> jsval \<Rightarrow> jsval \<Rightarrow> params" where
  "fetchTeamPhotos_params st offset limit =
     browse_params ''SYNO.FotoTeam.Browse.Item'' offset limit [] (sid st)"

definition fetchAlbumPhotos_params :: "helper_state \<Rightarrow> jsval \<Rightarrow> jsval \<Rightarrow> jsval \<Rightarrow> params" where
  "fetchAlbumPhotos_params st album offset limit =
     browse_params ''SYNO.Foto.Browse.Item'' offset limit [(''album_id'', js_String album)] (sid st)"

definition fetchFolderPhotos_params :: "helper_state \<Rightarrow> jsval \<Rightarrow> jsval \<Rightarrow> jsval \<Rightarrow> params" where
  "fetchFolderPhotos_params st folder offset limit =
     browse_params ''SYNO.Foto.Browse.Item'' offset limit [(''folder_id'', js_String folder)] (sid st)"

text \<open>Each of the four source functions issues one request and returns what
  \<^verbatim>\<open>response.json()\<close> gives.\<close>

definition send_entry :: "world \<Rightarrow> config \<Rightarrow> helper_state \<Rightarrow> params \<Rightarrow> reply \<times> helper_state" where
  "send_entry w cfg st ps =
     (let req = entry_request cfg ps in (api w req, st\<lparr>wire := wire st @ [req]\<rparr>))"

definition fetchPersonalPhotos :: "world \<Rightarrow> config \<Rightarrow> helper_state \<Rightarrow> jsval \<Rightarrow> jsval \<Rightarrow> reply \<times> helper_state" where
  "fetchPersonalPhotos w cfg st offset limit = send_entry w cfg st (fetchPersonalPhotos_params st offset limit)"

definition fetchTeamPhotos :: "world \<Rightarrow> config \<Rightarrow> helper_state \<Rightarrow> jsval \<Rightarrow> jsval \<Rightarrow> reply \<times> helper_state" where
  "fetchTeamPhotos w cfg st offset limit = send_entry w cfg st (fetchTeamPhotos_params st offset limit)"

definition fetchAlbumPhotos :: "world \<Rightarrow> config \<Rightarrow> helper_state \<Rightarrow> jsval \<Rightarrow> jsval \<Rightarrow> jsval \<Rightarrow> reply \<times> helper_state" where
  "fetchAlbumPhotos w cfg st album offset limit = send_entry w cfg st (fetchAlbumPhotos_params st album offset limit)"

definition fetchFolderPhotos :: "world \<Rightarrow> config \<Rightarrow> helper_state \<Rightarrow> jsval \<Rightarrow> jsval \<Rightarrow> jsval \<Rightarrow> reply \<times> helper_state" where
  "fetchFolderPhotos w cfg st folder offset limit = send_entry w cfg st (fetchFolderPhotos_params st folder offset limit)"

section \<open>The photo pipeline\<close>

text \<open>\<^verbatim>\<open>thumbnail[k]\<close> on the parsed thumbnail object; a missing key reads as undefined.\<close>

definition thumb_entry :: "(string \<times> jsval) list \<Rightarrow> string \<Rightarrow> jsval" where
  "thumb_entry th k = (case map_of th k of None \<Rightarrow> JUndefined | Some v \<Rightarrow> v)"

text \<open>The filter predicate of \<^verbatim>\<open>fetchPhotos\<close>.\<close>

definition has_ready_thumbnail :: "string \<Rightarrow> raw_item \<Rightarrow> bool" where
  "has_ready_thumbnail sz p =
     (case additional p of
        None \<Rightarrow> False
      | Some a \<Rightarrow>
          (case thumbnail a of
             None \<Rightarrow> False
           | Some th \<Rightarrow> thumb_entry th sz = JStr ''ready'' \<or> thumb_entry th sz = JBool True))"

text \<open>\<^verbatim>\<open>buildThumbnailUrl\<close> reads \<^verbatim>\<open>photo.additional.thumbnail.cache_key\<close>; on an item
  without that object the read throws a TypeError (\<open>None\<close>).\<close>

definition buildThumbnailUrl :: "config \<Rightarrow> helper_state \<Rightarrow> raw_item \<Rightarrow> string \<Rightarrow> string option" where
  "buildThumbnailUrl cfg st p sz =
     (case additional p of
        None \<Rightarrow> None
      | Some a \<Rightarrow>
          (case thumbnail a of
             None \<Rightarrow> None
           | Some th \<Rightarrow>
               (let baseUrl = getBaseUrl cfg;
                    cacheKey = thumb_entry th ''cache_key'';
                    apiName = (if truthy (sharedSpace cfg) then ''SYNO.FotoTeam.Thumbnail''
                               else ''SYNO.Foto.Thumbnail'');
                    apiPath = getApiPath cfg
                in Some (baseUrl @ apiPath @ ''/entry.cgi''
                         @ ''?api='' @ apiName
                         @ ''&version=1''
                         @ ''&method=get''
                         @ ''&mode=download''
                         @ ''&id='' @ js_String (item_id p)
                         @ ''&type=unit''
                         @ ''&size='' @ sz
                         @ ''&cache_key='' @ js_String cacheKey
                         @ ''&_sid='' @ js_String (sid st)))))"

text \<open>The \<^verbatim>\<open>map\<close> callback of \<^verbatim>\<open>fetchPhotos\<close> (\<open>None\<close>: it throws).\<close>

definition toPhoto :: "config \<Rightarrow> helper_state \<Rightarrow> string \<Rightarrow> raw_item \<Rightarrow> photo option" where
  "toPhoto cfg st sz p =
     (case buildThumbnailUrl cfg st p sz of
        None \<Rightarrow> None
      | Some u \<Rightarrow>
          (case additional p of
             None \<Rightarrow> None
           | Some a \<Rightarrow>
               Some \<lparr>photo_id = item_id p,
                     photo_filename = item_filename p,
                     url = ''/synology-photos/image?url='' @ encodeURIComponent u,
                     photo_width = (case resolution a of Some r \<Rightarrow> width r | None \<Rightarrow> JNull),
                     photo_height = (case resolution a of Some r \<Rightarrow> height r | None \<Rightarrow> JNull),
                     photo_time = item_time p\<rparr>))"

text \<open>The two callbacks as \<^verbatim>\<open>filter\<close> and \<^verbatim>\<open>map\<close> apply them to a list entry: on a
  \<^verbatim>\<open>null\<close> entry reading \<^verbatim>\<open>p.additional\<close> throws a TypeError (\<open>None\<close>).\<close>

definition filter_callback :: "string \<Rightarrow> raw_item option \<Rightarrow> bool option" where
  "filter_callback sz e = (case e of None \<Rightarrow> None | Some p \<Rightarrow> Some (has_ready_thumbnail sz p))"

definition map_callback :: "config \<Rightarrow> helper_state \<Rightarrow> string \<Rightarrow> raw_item option \<Rightarrow> photo option" where
  "map_callback cfg st sz e = (case e of None \<Rightarrow> None | Some p \<Rightarrow> toPhoto cfg st sz p)"

text \<open>\<^verbatim>\<open>list.filter(f)\<close> and \<^verbatim>\<open>list.map(f)\<close> with a callback that may throw: the first throw
  aborts the call.\<close>

fun filter_throwing :: "('a \<Rightarrow> bool option) \<Rightarrow> 'a list \<Rightarrow> 'a list option" where
  "filter_throwing f [] = Some []"
| "filter_throwing f (x # xs) =
     (case f x of
        None \<Rightarrow> None
      | Some keep \<Rightarrow>
          (case filter_throwing f xs of
             None \<Rightarrow> None
           | Some ys \<Rightarrow> Some (if keep then x # ys else ys)))"

fun map_throwing :: "('a \<Rightarrow> 'b option) \<Rightarrow> 'a list \<Rightarrow> 'b list option" where
  "map_throwing f [] = Some []"
| "map_throwing f (x # xs) =
     (case f x of
        None \<Rightarrow> None
      | Some y \<Rightarrow> (case map_throwing f xs of None \<Rightarrow> None | Some ys \<Rightarrow> Some (y # ys)))"

text \<open>The shuffle loop: \<^verbatim>\<open>for (let i = photos.length - 1; i > 0; i--)\<close>, swapping
  \<^verbatim>\<open>photos[i]\<close> and \<^verbatim>\<open>photos[j]\<close> for the drawn \<open>j \<le> i\<close>.\<close>

fun shuffle_loop :: "(nat \<Rightarrow> nat) \<Rightarrow> nat \<Rightarrow> 'a list \<Rightarrow> 'a list" where
  "shuffle_loop rnd 0 xs = xs"
| "shuffle_loop rnd (Suc i) xs =
     (let j = rnd (Suc i) mod (Suc i + 1)
      in shuffle_loop rnd i (xs[Suc i := xs ! j, j := xs ! Suc i]))"

definition shuffle_photos :: "(nat \<Rightarrow> nat) \<Rightarrow> 'a list \<Rightarrow> 'a list" where
  "shuffle_photos rnd xs = shuffle_loop rnd (length xs - 1) xs"

text \<open>\<^verbatim>\<open>Array.prototype.sort(cmp)\<close>: the comparator returns a number or not-a-number
  (\<open>None\<close>), and \<^verbatim>\<open>sort\<close> reads not-a-number as 0. It is a stable sort; with a consistent
  comparator every stable sort returns the same array, here computed by insertion: an
  element goes before the first later element it does not compare greater than. With an
  inconsistent comparator the order is left to the implementation; the model keeps the
  insertion order.\<close>

definition sort_compare :: "('a \<Rightarrow> 'a \<Rightarrow> int option) \<Rightarrow> 'a \<Rightarrow> 'a \<Rightarrow> int" where
  "sort_compare cmp a b = (case cmp a b of None \<Rightarrow> 0 | Some v \<Rightarrow> v)"

fun insert_cmp :: "('a \<Rightarrow> 'a \<Rightarrow> int option) \<Rightarrow> 'a \<Rightarrow> 'a list \<Rightarrow> 'a list" where
  "insert_cmp cmp a [] = [a]"
| "insert_cmp cmp a (x # xs) =
     (if sort_compare cmp a x \<le> 0 then a # x # xs else x # insert_cmp cmp a xs)"

definition array_sort :: "('a \<Rightarrow> 'a \<Rightarrow> int option) \<Rightarrow> 'a list \<Rightarrow> 'a list" where
  "array_sort cmp xs = foldr (insert_cmp cmp) xs []"

text \<open>The comparator \<^verbatim>\<open>(a, b) => b.time - a.time\<close>: not-a-number when either time is
  undefined.\<close>

definition by_time_desc :: "photo \<Rightarrow> photo \<Rightarrow> int option" where
  "by_time_desc a b =
     (case (photo_time b, photo_time a) of
        (Some tb, Some ta) \<Rightarrow> Some (tb - ta)
      | _ \<Rightarrow> None)"

text \<open>What \<^verbatim>\<open>fetchPhotos\<close> takes for \<^verbatim>\<open>photoList\<close> from the answer of the source call:
  the answer's list when \<^verbatim>\<open>data.success\<close> holds, the initial empty list otherwise; reading
  \<^verbatim>\<open>data.success\<close> of \<^verbatim>\<open>null\<close>, \<^verbatim>\<open>data.data.list\<close> without \<^verbatim>\<open>data.data\<close>, or calling
  \<^verbatim>\<open>filter\<close> on a list that is no array throws.\<close>

definition photoList_of :: "reply \<Rightarrow> error_payload + raw_item option list" where
  "photoList_of r =
     (case r of
        Threw m \<Rightarrow> Inl (Message m)
      | JsonNull \<Rightarrow> Inl TypeErrorMessage
      | Json d \<Rightarrow>
          if success d then
            (case data d of
               None \<Rightarrow> Inl TypeErrorMessage
             | Some dd \<Rightarrow> (case d_list dd of None \<Rightarrow> Inl TypeErrorMessage | Some l \<Rightarrow> Inr l))
          else Inr [])"

text \<open>The \<^verbatim>\<open>catch\<close> block of \<^verbatim>\<open>fetchPhotos\<close>.\<close>

definition fetch_catch :: "error_payload \<Rightarrow> helper_state \<Rightarrow> helper_state" where
  "fetch_catch e st = sendSocketNotification (SYNOLOGY_PHOTOS_ERROR e) st"

text \<open>The tail of \<^verbatim>\<open>fetchPhotos\<close>: order the photos, store and send them, arm the timer.\<close>

definition publish :: "world \<Rightarrow> config \<Rightarrow> photo list \<Rightarrow> helper_state \<Rightarrow> helper_state" where
  "publish w cfg ps st =
     (let ps' = (if truthy (shuffle cfg) then shuffle_photos (random w) ps
                 else if sortBy cfg = JStr ''time'' then array_sort by_time_desc ps
                 else ps);
          st1 = sendSocketNotification (SYNOLOGY_PHOTOS_DATA ps') (st\<lparr>photos := ps'\<rparr>)
      in st1\<lparr>refreshTimer := Some (js_or (refreshInterval cfg) (JNum 3600000))\<rparr>)"

text \<open>The source selection of \<^verbatim>\<open>fetchPhotos\<close>: the \<^verbatim>\<open>if / else if\<close> chain over
  \<^verbatim>\<open>albumId\<close>, \<^verbatim>\<open>folderId\<close> and \<^verbatim>\<open>sharedSpace\<close>, each branch awaiting one source call
  at offset 0.\<close>

definition fetch_source :: "world \<Rightarrow> config \<Rightarrow> helper_state \<Rightarrow> jsval \<Rightarrow> reply \<times> helper_state" where
  "fetch_source w cfg st limit =
     (if truthy (albumId cfg) then fetchAlbumPhotos w cfg st (albumId cfg) (JNum 0) limit
      else if truthy (folderId cfg) then fetchFolderPhotos w cfg st (folderId cfg) (JNum 0) limit
      else if truthy (sharedSpace cfg) then fetchTeamPhotos w cfg st (JNum 0) limit
      else fetchPersonalPhotos w cfg st (JNum 0) limit)"

text \<open>From the answer of the source call to the end of \<^verbatim>\<open>fetchPhotos\<close>: take the list,
  filter, map, then order and publish; any throw on the way goes to the \<^verbatim>\<open>catch\<close>
  block.\<close>

definition process_listing :: "world \<Rightarrow> config \<Rightarrow> string \<Rightarrow> reply \<Rightarrow> helper_state \<Rightarrow> helper_state" where
  "process_listing w cfg sz r st =
     (case photoList_of r of
        Inl e \<Rightarrow> fetch_catch e st
      | Inr photoList \<Rightarrow>
          (case filter_throwing (filter_callback sz) photoList of
             None \<Rightarrow> fetch_catch TypeErrorMessage st
           | Some kept \<Rightarrow>
               (case map_throwing (map_callback cfg st sz) kept of
                  None \<Rightarrow> fetch_catch TypeErrorMessage st
                | Some ps \<Rightarrow> publish w cfg ps st)))"

text \<open>\<^verbatim>\<open>fetchPhotos\<close>. Without a configuration the destructuring in \<^verbatim>\<open>login\<close> throws, which
  the \<^verbatim>\<open>catch\<close> block reports.\<close>

definition fetchPhotos :: "world \<Rightarrow> helper_state \<Rightarrow> helper_state" where
  "fetchPhotos w st =
     (case config st of
        None \<Rightarrow> fetch_catch TypeErrorMessage st
      | Some cfg \<Rightarrow>
          (let (loggedIn, st1) = login w cfg st
           in if \<not> loggedIn
              then sendSocketNotification
                     (SYNOLOGY_PHOTOS_ERROR (Message ''Login failed. Check your credentials and server URL.'')) st1
              else
                (let limit = js_or (numPhotos cfg) (JNum 100);
                     thumbSize = (if thumbnailSize cfg \<noteq> [] then thumbnailSize cfg else ''xl'');
                     (r, st2) = fetch_source w cfg st1 limit
                 in process_listing w cfg thumbSize r st2)))"

definition socketNotificationReceived :: "world \<Rightarrow> string \<Rightarrow> config \<Rightarrow> helper_state \<Rightarrow> helper_state" where
  "socketNotificationReceived w n payload st =
     (if n = ''SYNOLOGY_PHOTOS_FETCH'' then fetchPhotos w (st\<lparr>config := Some payload\<rparr>) else st)"

section \<open>The thumbnail proxy\<close>

text \<open>\<^verbatim>\<open>req.query.url\<close> as Express parses it: absent, a string, or an array when the
  parameter is repeated.\<close>

datatype query_value = QMissing | QString string | QArray "string list"

record proxy_response =
  res_status :: nat
  res_headers :: "(string \<times> string) list"
  res_body :: string

text \<open>The handler of \<^verbatim>\<open>GET /synology-photos/image\<close>. It returns the response and the state,
  whose \<open>wire\<close> has the call to \<^verbatim>\<open>fetch\<close> it made, if any. A thrown error inside the
  \<^verbatim>\<open>try\<close> (no configuration yet, \<^verbatim>\<open>startsWith\<close> on an array, \<^verbatim>\<open>fetch\<close> rejecting) ends
  in the \<^verbatim>\<open>catch\<close> block.\<close>

definition proxy_error :: proxy_response where
  "proxy_error = \<lparr>res_status = 500, res_headers = [], res_body = ''Proxy error''\<rparr>"

definition image_route :: "world \<Rightarrow> helper_state \<Rightarrow> query_value \<Rightarrow> proxy_response \<times> helper_state" where
  "image_route w st q =
     (case q of
        QMissing \<Rightarrow> (\<lparr>res_status = 400, res_headers = [], res_body = ''Missing URL''\<rparr>, st)
      | QArray ts \<Rightarrow> (proxy_error, st)
      | QString targetUrl \<Rightarrow>
          if targetUrl = [] then (\<lparr>res_status = 400, res_headers = [], res_body = ''Missing URL''\<rparr>, st)
          else
            (case config st of
               None \<Rightarrow> (proxy_error, st)
             | Some cfg \<Rightarrow>
                 (let req = synoFetch targetUrl (serverUrl cfg);
                      st1 = st\<lparr>wire := wire st @ [req]\<rparr>
                  in case upstream w req of
                       FetchThrew m \<Rightarrow> (proxy_error, st1)
                     | Response r \<Rightarrow>
                         if \<not> (200 \<le> status r \<and> status r < 300)
                         then (\<lparr>res_status = status r, res_headers = [], res_body = statusText r\<rparr>, st1)
                         else
                           (\<lparr>res_status = 200,
                             res_headers =
                               [(''Content-Type'',
                                 (case content_type r of
                                    None \<Rightarrow> ''image/jpeg''
                                  | Some c \<Rightarrow> if c \<noteq> [] then c else ''image/jpeg'')),
                                (''Cache-Control'', ''public, max-age=86400'')],
                             res_body = body r\<rparr>, st1))))"

section \<open>The second copy of the helper\<close>


definition getBaseUrl_direct :: "config \<Rightarrow> string" where
  "getBaseUrl_direct cfg =
     (let protocol = (if truthy (secure cfg) then ''https'' else ''http'');
          portStr = (if truthy (port cfg) then '':'' @ js_String (port cfg) else [])
      in protocol @ ''://'' @ serverUrl cfg @ portStr)"






definition has_ready_thumbnail_direct :: "string \<Rightarrow> raw_item \<Rightarrow> bool" where
  "has_ready_thumbnail_direct sz p =
     (case additional p of
        None \<Rightarrow> False
      | Some a \<Rightarrow>
          (case thumbnail a of
             None \<Rightarrow> False
           | Some th \<Rightarrow> thumb_entry th sz = JStr ''ready''))"

definition buildThumbnailUrl_direct :: "config \<Rightarrow> helper_state \<Rightarrow> raw_item \<Rightarrow> string \<Rightarrow> string option" where
  "buildThumbnailUrl_direct cfg st p sz =
     (case additional p of
        None \<Rightarrow> None
      | Some a \<Rightarrow>
          (case thumbnail a of
             None \<Rightarrow> None
           | Some th \<Rightarrow>
               (let baseUrl = getBaseUrl_direct cfg;
                    cacheKey = thumb_entry th ''cache_key'';
                    apiName = (if truthy (sharedSpace cfg) then ''SYNO.FotoTeam.Thumbnail''
                               else ''SYNO.Foto.Thumbnail'')
                in Some (baseUrl @ ''/photo/webapi/entry.cgi''
                         @ ''?api='' @ apiName
                         @ ''&version=1''
                         @ ''&method=get''
                         @ ''&mode=download''
                         @ ''&id='' @ js_String (item_id p)
                         @ ''&type=unit''
                         @ ''&size='' @ sz
                         @ ''&cache_key='' @ js_String cacheKey
                         @ ''&_sid='' @ js_String (sid st)))))"

definition toPhoto_direct :: "config \<Rightarrow> helper_state \<Rightarrow> string \<Rightarrow> raw_item \<Rightarrow> photo option" where
  "toPhoto_direct cfg st sz p =
     (case buildThumbnailUrl_direct cfg st p sz of
        None \<Rightarrow> None
      | Some u \<Rightarrow>
          (case additional p of
             None \<Rightarrow> None
           | Some a \<Rightarrow>
               Some \<lparr>photo_id = item_id p,
                     photo_filename = item_filename p,
                     url = u,
                     photo_width = (case resolution a of Some r \<Rightarrow> width r | None \<Rightarrow> JNull),
                     photo_height = (case resolution a of Some r \<Rightarrow> height r | None \<Rightarrow> JNull),
                     photo_time = item_time p\<rparr>))"

definition filter_callback_direct :: "string \<Rightarrow> raw_item option \<Rightarrow> bool option" where
  "filter_callback_direct sz e =
     (case e of None \<Rightarrow> None | Some p \<Rightarrow> Some (has_ready_thumbnail_direct sz p))"

definition map_callback_direct :: "config \<Rightarrow> helper_state \<Rightarrow> string \<Rightarrow> raw_item option \<Rightarrow> photo option" where
  "map_callback_direct cfg st sz e = (case e of None \<Rightarrow> None | Some p \<Rightarrow> toPhoto_direct cfg st sz p)"



section \<open>The diagnostic driver: endpoint resolution\<close>

text \<open>\<^verbatim>\<open>s.split(c)\<close> for a one-character separator: always at least one part.\<close>

fun split_on :: "char \<Rightarrow> string \<Rightarrow> string list" where
  "split_on c [] = [[]]"
| "split_on c (x # xs) =
     (if x = c then [] # split_on c xs
      else (case split_on c xs of [] \<Rightarrow> [[x]] | p # ps \<Rightarrow> (x # p) # ps))"

text \<open>\<^verbatim>\<open>parts[i]\<close>: undefined beyond the end.\<close>

definition part :: "string list \<Rightarrow> nat \<Rightarrow> jsval" where
  "part ps i = (if i < length ps then JStr (ps ! i) else JUndefined)"

text \<open>\<^verbatim>\<open>parseInt(s, 10)\<close>: leading white space, an optional sign, then the longest run of
  decimal digits; not-a-number when that run is empty. (Of JavaScript's white space the
  ASCII characters are modelled.)\<close>

definition nat_of_digits :: "string \<Rightarrow> nat" where
  "nat_of_digits ds = foldl (\<lambda>acc d. 10 * acc + (of_char d - 48)) 0 ds"

definition parseInt10 :: "string \<Rightarrow> jsval" where
  "parseInt10 s =
     (let t = dropWhile (\<lambda>c. c \<in> set [CHR '' '', CHR 0x09, CHR 0x0A, CHR 0x0B, CHR 0x0C, CHR 0x0D]) s;
          neg = (case t of [] \<Rightarrow> False | c # r \<Rightarrow> c = CHR ''-'');
          u = (case t of [] \<Rightarrow> [] | c # r \<Rightarrow> if c = CHR ''-'' \<or> c = CHR ''+'' then r else t);
          ds = takeWhile (\<lambda>c. c \<in> set ''0123456789'') u
      in if ds = [] then JNaN
         else JNum (if neg then - int (nat_of_digits ds) else int (nat_of_digits ds)))"

record server =
  host :: string
  server_port :: jsval
  server_isQuickConnect :: bool

text \<open>\<^verbatim>\<open>replace(/^https?:\/\//, "")\<close> and \<^verbatim>\<open>replace(/\/+$/, "")\<close>.\<close>

definition strip_protocol :: "string \<Rightarrow> string" where
  "strip_protocol s =
     (if prefix ''http://'' s then drop 7 s
      else if prefix ''https://'' s then drop 8 s
      else s)"

definition strip_trailing_slashes :: "string \<Rightarrow> string" where
  "strip_trailing_slashes s = rev (dropWhile (\<lambda>c. c = CHR ''/'') (rev s))"

definition parseServer :: "string \<Rightarrow> server" where
  "parseServer serverArg =
     (let raw = strip_trailing_slashes (strip_protocol serverArg);
          isQC = str_includes raw ''quickconnect.to''
      in if isQC then \<lparr>host = raw, server_port = JNull, server_isQuickConnect = isQC\<rparr>
         else
           (let parts = split_on CHR '':'' raw
            in \<lparr>host = js_String (part parts 0),
                server_port = (if truthy (part parts 1) then parseInt10 (js_String (part parts 1))
                               else JNum 5001),
                server_isQuickConnect = isQC\<rparr>))"

record candidate =
  cand_url :: string
  label :: string

text \<open>What the relay coordinator's answer holds, as far as \<^verbatim>\<open>resolveQuickConnect\<close> reads
  it. An entry of \<^verbatim>\<open>interface\<close> may be \<^verbatim>\<open>null\<close> (\<open>None\<close>), on which reading \<^verbatim>\<open>iface.ip\<close>
  throws.\<close>

record iface =
  ip :: jsval
  iface_port :: jsval

record external_info =
  ext_ip :: jsval
  ext_port :: jsval

record server_info =
  interface :: "iface option list option"
  ddns :: jsval
  external :: "external_info option"

text \<open>The outcome of the POST to a relay and of \<^verbatim>\<open>resp.json()\<close>: a throw, or a body with or
  without a \<^verbatim>\<open>server\<close> object (\<open>RelayJson None\<close> also stands for a body that is
  \<^verbatim>\<open>null\<close>).\<close>

datatype relay_reply = RelayThrew string | RelayJson "server_info option"

text \<open>The answer to an API-info probe: \<^verbatim>\<open>fetch\<close> or \<^verbatim>\<open>resp.text()\<close> throws, or there is
  a status and a text, with what \<^verbatim>\<open>JSON.parse\<close> makes of the text (\<open>None\<close>: it throws;
  otherwise the truthiness of \<^verbatim>\<open>success\<close> and the number of keys of \<^verbatim>\<open>data\<close>).\<close>

datatype probe_reply = ProbeThrew string | ProbeText nat string "(bool \<times> nat) option"

datatype probe_result = Ok nat | NotOk nat string | Failed string

text \<open>The network seen by one run of the tool. Requests are numbered in the order they are
  made, since the same URL may be asked twice and answer differently.\<close>

record net =
  relay :: "nat \<Rightarrow> string \<Rightarrow> string \<Rightarrow> relay_reply"
  probe :: "nat \<Rightarrow> request \<Rightarrow> probe_reply"

definition testApiEndpoint :: "(request \<Rightarrow> probe_reply) \<Rightarrow> string \<Rightarrow> string \<Rightarrow> string \<Rightarrow> probe_result" where
  "testApiEndpoint ask baseUrl apiPath refererHost =
     (let u = baseUrl @ apiPath @ ''/entry.cgi?api=SYNO.API.Info&version=1&method=query''
      in case ask (synoFetch u refererHost) of
           ProbeThrew m \<Rightarrow> Failed m
         | ProbeText st text parsed \<Rightarrow>
             if startsWith text ''{'' then
               (case parsed of
                  None \<Rightarrow> Failed ''JSON.parse''
                | Some (succ, n) \<Rightarrow> if succ then Ok n else NotOk st (take 100 text))
             else NotOk st (take 100 text))"

definition is_ok :: "probe_result \<Rightarrow> bool" where
  "is_ok r = (case r of Ok n \<Rightarrow> True | _ \<Rightarrow> False)"

text \<open>The loop over \<^verbatim>\<open>srv.interface\<close>: pushes a candidate for each entry with an address;
  the flag tells whether a \<^verbatim>\<open>null\<close> entry made it throw, after the pushes before it.\<close>

fun push_interfaces :: "iface option list \<Rightarrow> candidate list \<Rightarrow> candidate list \<times> bool" where
  "push_interfaces [] cs = (cs, False)"
| "push_interfaces (None # is) cs = (cs, True)"
| "push_interfaces (Some i # is) cs =
     push_interfaces is
       (if truthy (ip i)
        then cs @ [\<lparr>cand_url = ''https://'' @ js_String (ip i) @ '':'' @ js_String (js_or (iface_port i) (JNum 5001)),
                    label = ''LAN ('' @ js_String (ip i) @ '')''\<rparr>]
        else cs)"

text \<open>The body of the \<^verbatim>\<open>if (data && data.server)\<close> block; the flag tells whether it threw
  before reaching \<^verbatim>\<open>break\<close>.\<close>

definition push_server :: "server_info \<Rightarrow> candidate list \<Rightarrow> candidate list \<times> bool" where
  "push_server srv cs =
     (let httpsPort = js_or (case external srv of None \<Rightarrow> JUndefined | Some e \<Rightarrow> ext_port e) (JNum 5001);
          (cs1, threw) = (case interface srv of None \<Rightarrow> (cs, False) | Some is \<Rightarrow> push_interfaces is cs)
      in if threw then (cs1, True)
         else
           (let cs2 = (if truthy (ddns srv)
                       then cs1 @ [\<lparr>cand_url = ''https://'' @ js_String (ddns srv) @ '':'' @ js_String httpsPort,
                                    label = ''DDNS ('' @ js_String (ddns srv) @ '')''\<rparr>]
                       else cs1);
                eip = (case external srv of None \<Rightarrow> JUndefined | Some e \<Rightarrow> ext_ip e);
                cs3 = (if truthy eip
                       then cs2 @ [\<lparr>cand_url = ''https://'' @ js_String eip @ '':'' @ js_String httpsPort,
                                    label = ''External IP''\<rparr>]
                       else cs2)
            in (cs3, False)))"

text \<open>The loop over the relay URLs; \<open>k\<close> numbers the requests.\<close>

fun query_relays :: "(nat \<Rightarrow> string \<Rightarrow> string \<Rightarrow> relay_reply) \<Rightarrow> string \<Rightarrow> nat \<Rightarrow> string list \<Rightarrow> candidate list \<Rightarrow> candidate list" where
  "query_relays ask serverID k [] cs = cs"
| "query_relays ask serverID k (relayUrl # rest) cs =
     (case ask k relayUrl serverID of
        RelayThrew m \<Rightarrow> query_relays ask serverID (Suc k) rest cs
      | RelayJson None \<Rightarrow> query_relays ask serverID (Suc k) rest cs
      | RelayJson (Some srv) \<Rightarrow>
          (case push_server srv cs of
             (cs', True) \<Rightarrow> query_relays ask serverID (Suc k) rest cs'
           | (cs', False) \<Rightarrow> cs'))"

definition strip_quickconnect :: "string \<Rightarrow> string" where
  "strip_quickconnect s =
     (if suffix ''.quickconnect.to'' s then take (length s - 16) s else s)"

definition resolveQuickConnect :: "net \<Rightarrow> string \<Rightarrow> candidate list" where
  "resolveQuickConnect n fullDomain =
     (let parts = split_on CHR ''.'' (strip_quickconnect fullDomain);
          serverID = js_String (part parts 0);
          region = js_or (part parts 1) JNull;
          relayUrls = (if truthy region then [''https://'' @ js_String region @ ''.quickconnect.to/Serv.php''] else [])
                      @ [''https://global.quickconnect.to/Serv.php''];
          candidates = query_relays (relay n) serverID 0 relayUrls []
      in candidates @ [\<lparr>cand_url = ''https://'' @ fullDomain, label = ''QuickConnect''\<rparr>])"

text \<open>Step 1 of \<^verbatim>\<open>main\<close>. The candidates:\<close>

definition main_candidates :: "net \<Rightarrow> server \<Rightarrow> candidate list" where
  "main_candidates n srv =
     (if server_isQuickConnect srv then resolveQuickConnect n (host srv)
      else
        (let protocol = (if server_port srv = JNum 5000 then ''http'' else ''https'')
         in [\<lparr>cand_url = protocol @ ''://'' @ host srv @ '':'' @ js_String (server_port srv),
              label = ''Direct''\<rparr>]))"

text \<open>The probing loops. The state is \<^verbatim>\<open>workingBase\<close> and \<^verbatim>\<open>workingPath\<close> (\<open>None\<close>:
  still \<^verbatim>\<open>null\<close>) and the trace of the probes made so far, base URL and path, oldest
  first; the length of the trace numbers the next probe.\<close>

type_synonym probing = "(string \<times> string) option \<times> (string \<times> string) list"

fun try_paths :: "net \<Rightarrow> string \<Rightarrow> candidate \<Rightarrow> string list \<Rightarrow> probing \<Rightarrow> probing" where
  "try_paths n h c [] pr = pr"
| "try_paths n h c (apiPath # rest) (working, trace) =
     (let result = testApiEndpoint (probe n (length trace)) (cand_url c) apiPath h;
          trace' = trace @ [(cand_url c, apiPath)]
      in if is_ok result then (Some (cand_url c, apiPath), trace')
         else try_paths n h c rest (working, trace'))"

fun try_candidates :: "net \<Rightarrow> string \<Rightarrow> candidate list \<Rightarrow> probing \<Rightarrow> probing" where
  "try_candidates n h [] pr = pr"
| "try_candidates n h (c # cs) pr =
     (let pr' = try_paths n h c [''/webapi'', ''/photo/webapi''] pr
      in case fst pr' of
           Some (workingBase, workingPath) \<Rightarrow>
             if workingBase \<noteq> [] then pr' else try_candidates n h cs pr'
         | None \<Rightarrow> try_candidates n h cs pr')"

text \<open>Step 1 as a whole, from the command-line argument.\<close>

definition find_nas :: "net \<Rightarrow> string \<Rightarrow> probing" where
  "find_nas n serverArg =
     (let srv = parseServer serverArg
      in try_candidates n (host srv) (main_candidates n srv) (None, []))"

section \<open>A concrete configuration, listing and world\<close>

text \<open>Used to run the definitions: a NAS on the local network, all three source selectors
  set, \<^verbatim>\<open>numPhotos\<close> 0, no \<^verbatim>\<open>secure\<close> flag; a listing of three items of which the second has
  no ready thumbnail of size \<^verbatim>\<open>sm\<close>; a NAS that answers every API request with a successful
  body holding a session id and that listing.\<close>

definition example_config :: config where
  "example_config =
     \<lparr>serverUrl = ''nas.local'', account = ''me'', password = ''pw'', port = JNum 5001,
      secure = JUndefined, sharedSpace = JBool True, albumId = JNum 7, folderId = JNum 3,
      numPhotos = JNum 0, thumbnailSize = ''sm'', shuffle = JBool False, sortBy = JStr ''time'',
      refreshInterval = JNull\<rparr>"

definition example_items :: "raw_item list" where
  "example_items =
     [\<lparr>item_id = JNum 1, item_filename = JStr ''a.jpg'', item_time = Some 100,
       additional = Some \<lparr>thumbnail = Some [(''cache_key'', JStr ''1_k''), (''sm'', JStr ''ready'')],
                          resolution = Some \<lparr>width = JNum 640, height = JNum 480\<rparr>\<rparr>\<rparr>,
      \<lparr>item_id = JNum 2, item_filename = JStr ''b.jpg'', item_time = Some 300,
       additional = Some \<lparr>thumbnail = Some [(''cache_key'', JStr ''2_k''), (''sm'', JStr ''processing'')],
                          resolution = None\<rparr>\<rparr>,
      \<lparr>item_id = JNum 3, item_filename = JStr ''c.jpg'', item_time = Some 200,
       additional = Some \<lparr>thumbnail = Some [(''cache_key'', JStr ''3_k''), (''sm'', JBool True)],
                          resolution = None\<rparr>\<rparr>]"

definition example_world :: world where
  "example_world =
     \<lparr>token_file = NoFile,
      api = (\<lambda>r. Json \<lparr>success = True, data = Some \<lparr>d_sid = JStr ''S1dT0ken'', d_list = Some (map Some example_items)\<rparr>\<rparr>),
      upstream = (\<lambda>r. FetchThrew ''ECONNREFUSED''),
      random = (\<lambda>i. 0)\<rparr>"

definition example_state :: helper_state where
  "example_state = start\<lparr>config := Some example_config\<rparr>"

text \<open>The state after one successful cycle in that world.\<close>

definition previous_state :: helper_state where
  "previous_state = fetchPhotos example_world example_state"

text \<open>Three less helpful worlds for the same configuration: a NAS that accepts the login and
  answers the browse request with \<^verbatim>\<open>success: false\<close> (and a proxied download with 404); a
  connection that drops after the login; and no connection at all.\<close>

definition refusing_world :: world where
  "refusing_world =
     \<lparr>token_file = NoFile,
      api = (\<lambda>r. if startsWith (req_url r) ''http://nas.local:5001/photo/webapi/auth.cgi?''
                 then Json \<lparr>success = True, data = Some \<lparr>d_sid = JStr ''S2dT0ken'', d_list = None\<rparr>\<rparr>
                 else Json \<lparr>success = False, data = None\<rparr>),
      upstream = (\<lambda>r. Response \<lparr>status = 404, statusText = ''Not Found'', content_type = None, body = []\<rparr>),
      random = (\<lambda>i. 0)\<rparr>"


definition offline_world :: world where
  "offline_world =
     \<lparr>token_file = NoFile,
      api = (\<lambda>r. Threw ''connect ECONNREFUSED''),
      upstream = (\<lambda>r. FetchThrew ''connect ECONNREFUSED''),
      random = (\<lambda>i. 0)\<rparr>"

text \<open>A NAS that accepts the login and gives the browse request the answer \<open>r\<close>.\<close>

definition answering_world :: "reply \<Rightarrow> world" where
  "answering_world r =
     \<lparr>token_file = NoFile,
      api = (\<lambda>q. if startsWith (req_url q) ''http://nas.local:5001/photo/webapi/auth.cgi?''
                 then Json \<lparr>success = True, data = Some \<lparr>d_sid = JStr ''S4dT0ken'', d_list = None\<rparr>\<rparr>
                 else r),
      upstream = (\<lambda>q. FetchThrew ''connect ECONNREFUSED''),
      random = (\<lambda>i. 0)\<rparr>"

text \<open>A listing of three ready items of which the second has no \<^verbatim>\<open>time\<close> field.\<close>

definition timeless_items :: "raw_item list" where
  "timeless_items =
     [\<lparr>item_id = JNum 1, item_filename = JStr ''a.jpg'', item_time = Some 1,
       additional = Some \<lparr>thumbnail = Some [(''cache_key'', JStr ''1_k''), (''sm'', JStr ''ready'')],
                          resolution = None\<rparr>\<rparr>,
      \<lparr>item_id = JNum 2, item_filename = JStr ''b.jpg'', item_time = None,
       additional = Some \<lparr>thumbnail = Some [(''cache_key'', JStr ''2_k''), (''sm'', JStr ''ready'')],
                          resolution = None\<rparr>\<rparr>,
      \<lparr>item_id = JNum 3, item_filename = JStr ''c.jpg'', item_time = Some 3,
       additional = Some \<lparr>thumbnail = Some [(''cache_key'', JStr ''3_k''), (''sm'', JStr ''ready'')],
                          resolution = None\<rparr>\<rparr>]"

definition timeless_world :: world where
  "timeless_world =
     answering_world (Json \<lparr>success = True,
                            data = Some \<lparr>d_sid = JNull, d_list = Some (map Some timeless_items)\<rparr>\<rparr>)"

text \<open>A network for the diagnostic tool: the first relay query fails, the second has no
  \<^verbatim>\<open>server\<close> field; the first API-info probe gets an HTML page, the later ones a successful
  JSON body.\<close>

definition example_net :: net where
  "example_net =
     \<lparr>relay = (\<lambda>k u s. if k = 0 then RelayThrew ''getaddrinfo ENOTFOUND'' else RelayJson None),
      probe = (\<lambda>k r. if k = 0 then ProbeText 404 ''<html>Not Found</html>'' None
                       else ProbeText 200 ''{\"success\":true,\"data\":{}}'' (Some (True, 0)))\<rparr>"

section \<open>What a fetch cycle does to the helper's fields\<close>

lemma login_fields:
  "photos (snd (login w cfg st)) = photos st"
  "outbox (snd (login w cfg st)) = outbox st"
  "config (snd (login w cfg st)) = config st"
  "refreshTimer (snd (login w cfg st)) = refreshTimer st"
  "wire (snd (login w cfg st)) = wire st @ [login_request cfg (loadDeviceToken w)]"
  by (simp_all add: login_def Let_def split: reply.splits option.splits)

lemma send_entry_fields:
  "photos (snd (send_entry w cfg st ps)) = photos st"
  "outbox (snd (send_entry w cfg st ps)) = outbox st"
  "sid (snd (send_entry w cfg st ps)) = sid st"
  "refreshTimer (snd (send_entry w cfg st ps)) = refreshTimer st"
  "wire (snd (send_entry w cfg st ps)) = wire st @ [entry_request cfg ps]"
  "fst (send_entry w cfg st ps) = api w (entry_request cfg ps)"
  by (simp_all add: send_entry_def Let_def)

lemma fetch_catch_fields:
  "photos (fetch_catch e st) = photos st"
  "wire (fetch_catch e st) = wire st"
  "outbox (fetch_catch e st) = outbox st @ [SYNOLOGY_PHOTOS_ERROR e]"
  by (simp_all add: fetch_catch_def sendSocketNotification_def)

lemma publish_fields:
  "wire (publish w cfg ps st) = wire st"
  "outbox (publish w cfg ps st) = outbox st @ [SYNOLOGY_PHOTOS_DATA (photos (publish w cfg ps st))]"
  by (simp_all add: publish_def sendSocketNotification_def Let_def)

lemma wire_process_listing: "wire (process_listing w cfg sz r st) = wire st"
  by (simp add: process_listing_def fetch_catch_fields publish_fields split: sum.splits option.splits)

lemma fetchPhotos_logged_in:
  assumes "config st = Some cfg" and "login w cfg st = (True, st1)"
  shows "fetchPhotos w st =
           process_listing w cfg (if thumbnailSize cfg \<noteq> [] then thumbnailSize cfg else ''xl'')
             (fst (fetch_source w cfg st1 (js_or (numPhotos cfg) (JNum 100))))
             (snd (fetch_source w cfg st1 (js_or (numPhotos cfg) (JNum 100))))"
  using assms by (simp add: fetchPhotos_def Let_def case_prod_beta)

lemma fetchPhotos_login_failed:
  assumes "config st = Some cfg" and "login w cfg st = (False, st1)"
  shows "fetchPhotos w st = sendSocketNotification
           (SYNOLOGY_PHOTOS_ERROR (Message ''Login failed. Check your credentials and server URL.'')) st1"
  using assms by (simp add: fetchPhotos_def)

lemma wire_fetch_source:
  "wire (snd (fetch_source w cfg st limit)) = wire st @
     [entry_request cfg
        (if truthy (albumId cfg) then fetchAlbumPhotos_params st (albumId cfg) (JNum 0) limit
         else if truthy (folderId cfg) then fetchFolderPhotos_params st (folderId cfg) (JNum 0) limit
         else if truthy (sharedSpace cfg) then fetchTeamPhotos_params st (JNum 0) limit
         else fetchPersonalPhotos_params st (JNum 0) limit)]"
  by (simp add: fetch_source_def fetchAlbumPhotos_def fetchFolderPhotos_def fetchTeamPhotos_def
        fetchPersonalPhotos_def send_entry_fields)


subsection \<open>The URL of a browse request\<close>

lemma join_amp_Cons: "join_amp (x # xs) = x @ concat (map (\<lambda>y. ''&'' @ y) xs)"
  by (induction xs arbitrary: x) auto

lemma params_toString_Cons:
  "params_toString ((k, v) # ps) =
     form_encode k @ ''='' @ form_encode v
     @ concat (map (\<lambda>(k, v). ''&'' @ form_encode k @ ''='' @ form_encode v) ps)"
  by (simp add: params_toString_def join_amp_Cons comp_def case_prod_unfold)

lemma form_encode_literals:
  "form_encode ''api'' = ''api''"
  "form_encode ''version'' = ''version''"
  "form_encode ''method'' = ''method''"
  "form_encode ''type'' = ''type''"
  "form_encode ''offset'' = ''offset''"
  "form_encode ''limit'' = ''limit''"
  "form_encode ''album_id'' = ''album_id''"
  "form_encode ''folder_id'' = ''folder_id''"
  "form_encode ''_sid'' = ''_sid''"
  "form_encode ''additional'' = ''additional''"
  "form_encode ''1'' = ''1''"
  "form_encode ''list'' = ''list''"
  "form_encode ''photo'' = ''photo''"
  "form_encode ''SYNO.Foto.Browse.Item'' = ''SYNO.Foto.Browse.Item''"
  "form_encode ''SYNO.FotoTeam.Browse.Item'' = ''SYNO.FotoTeam.Browse.Item''"
  "form_encode ''[\"thumbnail\",\"resolution\"]'' = ''%5B%22thumbnail%22%2C%22resolution%22%5D''"
  by (simp_all add: form_encode_def alphanumerics_def percent_def hexdigit_def)

lemma string_of_small: "string_of_int 0 = ''0''" "string_of_int 100 = ''100''"
  by (simp_all add: string_of_int_def string_of_nat.simps)

lemma form_encode_small: "form_encode ''0'' = ''0''" "form_encode ''100'' = ''100''"
  by (simp_all add: form_encode_def alphanumerics_def)

lemma browse_query:
  "params_toString (browse_params a (JNum 0) lim extra s) =
     ''api='' @ form_encode a @ ''&version=1&method=list&type=photo&offset=0&limit=''
     @ form_encode (js_String lim)
     @ concat (map (\<lambda>(k, v). ''&'' @ form_encode k @ ''='' @ form_encode v) extra)
     @ ''&_sid='' @ form_encode (js_String s)
     @ ''&additional=%5B%22thumbnail%22%2C%22resolution%22%5D''"
  by (simp add: browse_params_def params_toString_Cons form_encode_literals string_of_small
        form_encode_small)

lemma limit_or_100:
  "form_encode (js_String (js_or v (JNum 100))) = (if truthy v then form_encode (js_String v) else ''100'')"
  by (simp add: js_or_def string_of_small form_encode_small)

lemma source_request:
  "wire (snd (fetch_source w cfg st (js_or (numPhotos cfg) (JNum 100)))) = wire st @
     [synoFetch
        (getBaseUrl cfg @ getApiPath cfg @ ''/entry.cgi?api=''
         @ (if \<not> truthy (albumId cfg) \<and> \<not> truthy (folderId cfg) \<and> truthy (sharedSpace cfg)
            then ''SYNO.FotoTeam.Browse.Item'' else ''SYNO.Foto.Browse.Item'')
         @ ''&version=1&method=list&type=photo&offset=0&limit=''
         @ (if truthy (numPhotos cfg) then form_encode (js_String (numPhotos cfg)) else ''100'')
         @ (if truthy (albumId cfg) then ''&album_id='' @ form_encode (js_String (albumId cfg))
            else if truthy (folderId cfg) then ''&folder_id='' @ form_encode (js_String (folderId cfg))
            else [])
         @ ''&_sid='' @ form_encode (js_String (sid st))
         @ ''&additional=%5B%22thumbnail%22%2C%22resolution%22%5D'')
        (serverUrl cfg)]"
  unfolding wire_fetch_source
  by (simp add: entry_request_def fetchAlbumPhotos_params_def fetchFolderPhotos_params_def
        fetchTeamPhotos_params_def fetchPersonalPhotos_params_def browse_query limit_or_100
        form_encode_literals)

text \<open>
  Claim C6. When more than one source selector is set, \<^verbatim>\<open>fetchPhotos\<close> queries exactly one
  source, chosen by the precedence album, then folder, then shared space, then the personal
  space. After a successful login exactly one request is added to the wire, to
  \<^verbatim>\<open>entry.cgi\<close>: with \<^verbatim>\<open>albumId\<close> set (truthy) it asks \<^verbatim>\<open>SYNO.Foto.Browse.Item\<close> with that
  \<^verbatim>\<open>album_id\<close>, whatever the other selectors; with \<^verbatim>\<open>albumId\<close> not set and \<^verbatim>\<open>folderId\<close> set,
  \<^verbatim>\<open>SYNO.Foto.Browse.Item\<close> with that \<^verbatim>\<open>folder_id\<close>; with only \<^verbatim>\<open>sharedSpace\<close> set,
  \<^verbatim>\<open>SYNO.FotoTeam.Browse.Item\<close> with neither id; otherwise \<^verbatim>\<open>SYNO.Foto.Browse.Item\<close> with
  neither id. (\<open>front\<close>, \<open>paging\<close> and \<open>back\<close> name the parts of the URL that all four share.)
\<close>

theorem one_source_by_precedence:
  assumes "config st = Some cfg" and "login w cfg st = (True, st1)"
    and "safe_integer (numPhotos cfg)" and "safe_integer (albumId cfg)"
    and "safe_integer (folderId cfg)" and "safe_integer (sid st1)"
    and "front = getBaseUrl cfg @ getApiPath cfg @ ''/entry.cgi?api=''"
    and "paging = ''&version=1&method=list&type=photo&offset=0&limit=''
                  @ (if truthy (numPhotos cfg) then form_encode (js_String (numPhotos cfg)) else ''100'')"
    and "back = ''&_sid='' @ form_encode (js_String (sid st1))
                @ ''&additional=%5B%22thumbnail%22%2C%22resolution%22%5D''"
  shows "(\<exists>r. wire (fetchPhotos w st) = wire st1 @ [r])
       \<and> (truthy (albumId cfg) \<longrightarrow>
            wire (fetchPhotos w st) = wire st1 @
              [synoFetch (front @ ''SYNO.Foto.Browse.Item'' @ paging
                          @ ''&album_id='' @ form_encode (js_String (albumId cfg)) @ back)
                 (serverUrl cfg)])
       \<and> (\<not> truthy (albumId cfg) \<and> truthy (folderId cfg) \<longrightarrow>
            wire (fetchPhotos w st) = wire st1 @
              [synoFetch (front @ ''SYNO.Foto.Browse.Item'' @ paging
                          @ ''&folder_id='' @ form_encode (js_String (folderId cfg)) @ back)
                 (serverUrl cfg)])
       \<and> (\<not> truthy (albumId cfg) \<and> \<not> truthy (folderId cfg) \<and> truthy (sharedSpace cfg) \<longrightarrow>
            wire (fetchPhotos w st) = wire st1 @
              [synoFetch (front @ ''SYNO.FotoTeam.Browse.Item'' @ paging @ back) (serverUrl cfg)])
       \<and> (\<not> truthy (albumId cfg) \<and> \<not> truthy (folderId cfg) \<and> \<not> truthy (sharedSpace cfg) \<longrightarrow>
            wire (fetchPhotos w st) = wire st1 @
              [synoFetch (front @ ''SYNO.Foto.Browse.Item'' @ paging @ back) (serverUrl cfg)])"
  unfolding fetchPhotos_logged_in [OF assms(1,2)] wire_process_listing source_request assms(7,8,9)
  by simp

lemmas eval_strings = params_toString_def form_encode_def alphanumerics_def percent_def hexdigit_def
  string_of_int_def string_of_nat.simps startsWith_def

lemmas eval_helper = login_def login_request_def login_params_def login_baseUrl_def getBaseUrl_def
  getApiPath_def isQuickConnect_def loadDeviceToken_def synoFetch_def entry_request_def
  browse_params_def fetchAlbumPhotos_params_def fetchFolderPhotos_params_def
  fetchTeamPhotos_params_def fetchPersonalPhotos_params_def js_or_def
  example_config_def example_world_def example_state_def start_def


lemma example_world_login:
  "login example_world cfg (start\<lparr>config := Some cfg\<rparr>) =
     (True, start\<lparr>config := Some cfg, wire := [login_request cfg JNull], sid := JStr ''S1dT0ken''\<rparr>)"
  by (simp add: login_def loadDeviceToken_def example_world_def start_def Let_def)

text \<open>The example configuration has album 7, folder 3 and the shared space all set: the album
  is asked. Without the album the folder is asked, without both the shared space, and with
  none of the three the personal space.\<close>

theorem one_source_by_precedence_witness:
  "map req_url (wire (fetchPhotos example_world (start\<lparr>config := Some example_config\<rparr>))) =
     [''http://nas.local:5001/photo/webapi/auth.cgi?api=SYNO.API.Auth&version=6&method=login&account=me&passwd=pw'',
      ''https://nas.local:5001/photo/webapi/entry.cgi?api=SYNO.Foto.Browse.Item&version=1&method=list&type=photo&offset=0&limit=100&album_id=7&_sid=S1dT0ken&additional=%5B%22thumbnail%22%2C%22resolution%22%5D'']
   \<and> map req_url (wire (fetchPhotos example_world (start\<lparr>config := Some (example_config\<lparr>albumId := JNull\<rparr>)\<rparr>))) =
     [''http://nas.local:5001/photo/webapi/auth.cgi?api=SYNO.API.Auth&version=6&method=login&account=me&passwd=pw'',
      ''https://nas.local:5001/photo/webapi/entry.cgi?api=SYNO.Foto.Browse.Item&version=1&method=list&type=photo&offset=0&limit=100&folder_id=3&_sid=S1dT0ken&additional=%5B%22thumbnail%22%2C%22resolution%22%5D'']
   \<and> map req_url (wire (fetchPhotos example_world
          (start\<lparr>config := Some (example_config\<lparr>albumId := JNull, folderId := JNull\<rparr>)\<rparr>))) =
     [''http://nas.local:5001/photo/webapi/auth.cgi?api=SYNO.API.Auth&version=6&method=login&account=me&passwd=pw'',
      ''https://nas.local:5001/photo/webapi/entry.cgi?api=SYNO.FotoTeam.Browse.Item&version=1&method=list&type=photo&offset=0&limit=100&_sid=S1dT0ken&additional=%5B%22thumbnail%22%2C%22resolution%22%5D'']
   \<and> map req_url (wire (fetchPhotos example_world
          (start\<lparr>config := Some (example_config\<lparr>albumId := JNull, folderId := JNull, sharedSpace := JBool False\<rparr>)\<rparr>))) =
     [''http://nas.local:5001/photo/webapi/auth.cgi?api=SYNO.API.Auth&version=6&method=login&account=me&passwd=pw'',
      ''https://nas.local:5001/photo/webapi/entry.cgi?api=SYNO.Foto.Browse.Item&version=1&method=list&type=photo&offset=0&limit=100&_sid=S1dT0ken&additional=%5B%22thumbnail%22%2C%22resolution%22%5D'']"
proof -
  let ?run = "\<lambda>c. fetchPhotos example_world (start\<lparr>config := Some c\<rparr>)"
  let ?st1 = "\<lambda>c. start\<lparr>config := Some c, wire := [login_request c JNull], sid := JStr ''S1dT0ken''\<rparr>"
  let ?both = "example_config\<lparr>albumId := JNull\<rparr>"
  let ?shared = "example_config\<lparr>albumId := JNull, folderId := JNull\<rparr>"
  let ?none = "example_config\<lparr>albumId := JNull, folderId := JNull, sharedSpace := JBool False\<rparr>"
  have c: "\<And>c. config (start\<lparr>config := Some c\<rparr>) = Some c"
    by simp
  have s: "safe_integer (JNum 0)" "safe_integer (JNum 7)" "safe_integer (JNum 3)" "safe_integer JNull"
    "safe_integer (JStr ''S1dT0ken'')"
    by (simp_all add: safe_integer_def)
  have 1: "wire (?run example_config) = wire (?st1 example_config) @
      [synoFetch ((getBaseUrl example_config @ getApiPath example_config @ ''/entry.cgi?api='')
                  @ ''SYNO.Foto.Browse.Item''
                  @ (''&version=1&method=list&type=photo&offset=0&limit=''
                     @ (if truthy (numPhotos example_config)
                        then form_encode (js_String (numPhotos example_config)) else ''100''))
                  @ ''&album_id='' @ form_encode (js_String (albumId example_config))
                  @ (''&_sid='' @ form_encode (js_String (sid (?st1 example_config)))
                     @ ''&additional=%5B%22thumbnail%22%2C%22resolution%22%5D''))
         (serverUrl example_config)]"
    using one_source_by_precedence [OF c example_world_login _ _ _ _ refl refl refl, of example_config] s
    by (simp add: example_config_def)
  have 2: "wire (?run ?both) = wire (?st1 ?both) @
      [synoFetch ((getBaseUrl ?both @ getApiPath ?both @ ''/entry.cgi?api='')
                  @ ''SYNO.Foto.Browse.Item''
                  @ (''&version=1&method=list&type=photo&offset=0&limit=''
                     @ (if truthy (numPhotos ?both) then form_encode (js_String (numPhotos ?both)) else ''100''))
                  @ ''&folder_id='' @ form_encode (js_String (folderId ?both))
                  @ (''&_sid='' @ form_encode (js_String (sid (?st1 ?both)))
                     @ ''&additional=%5B%22thumbnail%22%2C%22resolution%22%5D''))
         (serverUrl ?both)]"
    using one_source_by_precedence [OF c example_world_login _ _ _ _ refl refl refl, of ?both] s
    by (simp add: example_config_def)
  have 3: "wire (?run ?shared) = wire (?st1 ?shared) @
      [synoFetch ((getBaseUrl ?shared @ getApiPath ?shared @ ''/entry.cgi?api='')
                  @ ''SYNO.FotoTeam.Browse.Item''
                  @ (''&version=1&method=list&type=photo&offset=0&limit=''
                     @ (if truthy (numPhotos ?shared) then form_encode (js_String (numPhotos ?shared)) else ''100''))
                  @ (''&_sid='' @ form_encode (js_String (sid (?st1 ?shared)))
                     @ ''&additional=%5B%22thumbnail%22%2C%22resolution%22%5D''))
         (serverUrl ?shared)]"
    using one_source_by_precedence [OF c example_world_login _ _ _ _ refl refl refl, of ?shared] s
    by (simp add: example_config_def)
  have 4: "wire (?run ?none) = wire (?st1 ?none) @
      [synoFetch ((getBaseUrl ?none @ getApiPath ?none @ ''/entry.cgi?api='')
                  @ ''SYNO.Foto.Browse.Item''
                  @ (''&version=1&method=list&type=photo&offset=0&limit=''
                     @ (if truthy (numPhotos ?none) then form_encode (js_String (numPhotos ?none)) else ''100''))
                  @ (''&_sid='' @ form_encode (js_String (sid (?st1 ?none)))
                     @ ''&additional=%5B%22thumbnail%22%2C%22resolution%22%5D''))
         (serverUrl ?none)]"
    using one_source_by_precedence [OF c example_world_login _ _ _ _ refl refl refl, of ?none] s
    by (simp add: example_config_def)
  show ?thesis
    unfolding 1 2 3 4
    by (simp add: eval_helper eval_strings Let_def)
qed

text \<open>
  Claim C9. When the \<^verbatim>\<open>secure\<close> flag is absent (undefined), the base URL of the login
  request uses \<^verbatim>\<open>http\<close> (\<^verbatim>\<open>secure ? "https" : "http"\<close>) while the base URL of every browse
  and thumbnail request uses \<^verbatim>\<open>https\<close> (\<^verbatim>\<open>secure !== false ? "https" : "http"\<close>): the two
  base URLs differ in the scheme only, and the requests are sent through the plain and the
  TLS agent respectively.
\<close>

theorem secure_absent_login_http_browse_https:
  assumes "secure cfg = JUndefined"
  shows "(\<exists>rest. login_baseUrl cfg = ''http://'' @ rest \<and> getBaseUrl cfg = ''https://'' @ rest)
       \<and> prefix (login_baseUrl cfg) (req_url (login_request cfg dev))
       \<and> req_agent (login_request cfg dev) = HttpAgent
       \<and> prefix (getBaseUrl cfg) (req_url (entry_request cfg ps))
       \<and> req_agent (entry_request cfg ps) = HttpsAgent
       \<and> (\<forall>u. buildThumbnailUrl cfg st p sz = Some u \<longrightarrow> prefix (getBaseUrl cfg) u)"
proof -
  have b: "login_baseUrl cfg = ''http://'' @ serverUrl cfg @ (if truthy (port cfg) then '':'' @ js_String (port cfg) else [])"
    using assms by (simp add: login_baseUrl_def)
  have g: "getBaseUrl cfg = ''https://'' @ serverUrl cfg @ (if truthy (port cfg) then '':'' @ js_String (port cfg) else [])"
    using assms by (simp add: getBaseUrl_def)
  have 1: "\<exists>rest. login_baseUrl cfg = ''http://'' @ rest \<and> getBaseUrl cfg = ''https://'' @ rest"
    using b g by blast
  have 2: "prefix (login_baseUrl cfg) (req_url (login_request cfg dev))"
    by (simp add: login_request_def synoFetch_def Let_def)
  have 3: "req_agent (login_request cfg dev) = HttpAgent"
    by (simp add: login_request_def synoFetch_def Let_def startsWith_def b)
  have 4: "prefix (getBaseUrl cfg) (req_url (entry_request cfg ps))"
    by (simp add: entry_request_def synoFetch_def Let_def)
  have 5: "req_agent (entry_request cfg ps) = HttpsAgent"
    by (simp add: entry_request_def synoFetch_def Let_def startsWith_def g)
  have 6: "\<forall>u. buildThumbnailUrl cfg st p sz = Some u \<longrightarrow> prefix (getBaseUrl cfg) u"
    by (auto simp: buildThumbnailUrl_def Let_def split: option.splits)
  from 1 2 3 4 5 6 show ?thesis by blast
qed

text \<open>The example configuration has no \<^verbatim>\<open>secure\<close> flag.\<close>

theorem secure_absent_login_http_browse_https_witness:
  "secure example_config = JUndefined
   \<and> login_baseUrl example_config = ''http://nas.local:5001''
   \<and> getBaseUrl example_config = ''https://nas.local:5001''
   \<and> req_agent (login_request example_config JNull) = HttpAgent
   \<and> req_agent (entry_request example_config []) = HttpsAgent"
proof -
  have s: "secure example_config = JUndefined"
    by (simp add: example_config_def)
  from secure_absent_login_http_browse_https [OF s, of JNull "[]"]
  have "req_agent (login_request example_config JNull) = HttpAgent"
    and "req_agent (entry_request example_config []) = HttpsAgent"
    by blast+
  moreover have "login_baseUrl example_config = ''http://nas.local:5001''"
    by (simp add: login_baseUrl_def example_config_def eval_strings)
  moreover have "getBaseUrl example_config = ''https://nas.local:5001''"
    by (simp add: getBaseUrl_def example_config_def eval_strings)
  ultimately show ?thesis using s by simp
qed


text \<open>
  Claim C10. The \<^verbatim>\<open>limit\<close> query parameter of the browse request of a fetch cycle is the
  configured \<^verbatim>\<open>numPhotos\<close> when that value is truthy and 100 otherwise; a configured
  \<^verbatim>\<open>numPhotos\<close> of 0 gives the limit 100. The URL of the one browse request is the
  \<^verbatim>\<open>entry.cgi\<close> endpoint, an API name, \<^verbatim>\<open>&version=1&method=list&type=photo&offset=0&limit=\<close>,
  that value (form-encoded), an optional album or folder id, the session id and
  \<^verbatim>\<open>additional\<close>.
\<close>

theorem browse_limit_is_numPhotos_or_100:
  assumes "config st = Some cfg" and "login w cfg st = (True, st1)"
    and "safe_integer (numPhotos cfg)"
    and "lim = (if truthy (numPhotos cfg) then form_encode (js_String (numPhotos cfg)) else ''100'')"
  shows "(\<exists>a e s. wire (fetchPhotos w st) = wire st1 @
             [synoFetch (getBaseUrl cfg @ getApiPath cfg @ ''/entry.cgi?api='' @ a
                         @ ''&version=1&method=list&type=photo&offset=0&limit='' @ lim
                         @ e @ ''&_sid='' @ form_encode s
                         @ ''&additional=%5B%22thumbnail%22%2C%22resolution%22%5D'')
                (serverUrl cfg)]
           \<and> (a = ''SYNO.Foto.Browse.Item'' \<or> a = ''SYNO.FotoTeam.Browse.Item'')
           \<and> (e = [] \<or> (\<exists>v. e = ''&album_id='' @ form_encode v)
                       \<or> (\<exists>v. e = ''&folder_id='' @ form_encode v)))
       \<and> (numPhotos cfg = JNum 0 \<longrightarrow> lim = ''100'')"
proof -
  let ?a = "if \<not> truthy (albumId cfg) \<and> \<not> truthy (folderId cfg) \<and> truthy (sharedSpace cfg)
            then ''SYNO.FotoTeam.Browse.Item'' else ''SYNO.Foto.Browse.Item''"
  let ?e = "if truthy (albumId cfg) then ''&album_id='' @ form_encode (js_String (albumId cfg))
            else if truthy (folderId cfg) then ''&folder_id='' @ form_encode (js_String (folderId cfg))
            else []"
  have w: "wire (fetchPhotos w st) = wire st1 @
             [synoFetch (getBaseUrl cfg @ getApiPath cfg @ ''/entry.cgi?api='' @ ?a
                         @ ''&version=1&method=list&type=photo&offset=0&limit='' @ lim
                         @ ?e @ ''&_sid='' @ form_encode (js_String (sid st1))
                         @ ''&additional=%5B%22thumbnail%22%2C%22resolution%22%5D'')
                (serverUrl cfg)]"
    unfolding fetchPhotos_logged_in [OF assms(1,2)] wire_process_listing source_request assms(4)
    by simp
  have a: "?a = ''SYNO.Foto.Browse.Item'' \<or> ?a = ''SYNO.FotoTeam.Browse.Item''"
    by simp
  have e: "?e = [] \<or> (\<exists>v. ?e = ''&album_id='' @ form_encode v) \<or> (\<exists>v. ?e = ''&folder_id='' @ form_encode v)"
    by auto
  have z: "numPhotos cfg = JNum 0 \<longrightarrow> lim = ''100''"
    using assms(4) by simp
  from w a e z show ?thesis by blast
qed

text \<open>The example configuration asks for 0 photos, and the request asks for 100; asked for
  25 photos, the request asks for 25.\<close>

theorem browse_limit_is_numPhotos_or_100_witness:
  "numPhotos example_config = JNum 0
   \<and> map req_url (wire (fetchPhotos example_world (start\<lparr>config := Some example_config\<rparr>))) =
     [''http://nas.local:5001/photo/webapi/auth.cgi?api=SYNO.API.Auth&version=6&method=login&account=me&passwd=pw'',
      ''https://nas.local:5001/photo/webapi/entry.cgi?api=SYNO.Foto.Browse.Item&version=1&method=list&type=photo&offset=0&limit=100&album_id=7&_sid=S1dT0ken&additional=%5B%22thumbnail%22%2C%22resolution%22%5D'']
   \<and> map req_url (wire (fetchPhotos example_world
          (start\<lparr>config := Some (example_config\<lparr>numPhotos := JNum 25\<rparr>)\<rparr>))) =
     [''http://nas.local:5001/photo/webapi/auth.cgi?api=SYNO.API.Auth&version=6&method=login&account=me&passwd=pw'',
      ''https://nas.local:5001/photo/webapi/entry.cgi?api=SYNO.Foto.Browse.Item&version=1&method=list&type=photo&offset=0&limit=25&album_id=7&_sid=S1dT0ken&additional=%5B%22thumbnail%22%2C%22resolution%22%5D'']"
proof -
  let ?more = "example_config\<lparr>numPhotos := JNum 25\<rparr>"
  let ?st1 = "\<lambda>c. start\<lparr>config := Some c, wire := [login_request c JNull], sid := JStr ''S1dT0ken''\<rparr>"
  have c: "\<And>c. config (start\<lparr>config := Some c\<rparr>) = Some c"
    by simp
  have s: "safe_integer (numPhotos example_config)" "safe_integer (numPhotos ?more)"
    by (simp_all add: safe_integer_def example_config_def)
  have n: "numPhotos example_config = JNum 0"
    by (simp add: example_config_def)
  from browse_limit_is_numPhotos_or_100 [OF c example_world_login s(1) refl]
  obtain a e x where 1: "wire (fetchPhotos example_world (start\<lparr>config := Some example_config\<rparr>)) =
      wire (?st1 example_config) @
        [synoFetch (getBaseUrl example_config @ getApiPath example_config @ ''/entry.cgi?api='' @ a
                    @ ''&version=1&method=list&type=photo&offset=0&limit=''
                    @ (if truthy (numPhotos example_config)
                       then form_encode (js_String (numPhotos example_config)) else ''100'')
                    @ e @ ''&_sid='' @ form_encode x
                    @ ''&additional=%5B%22thumbnail%22%2C%22resolution%22%5D'')
           (serverUrl example_config)]"
    by blast
  from browse_limit_is_numPhotos_or_100 [OF c example_world_login s(2) refl]
  obtain a' e' x' where 2: "wire (fetchPhotos example_world (start\<lparr>config := Some ?more\<rparr>)) =
      wire (?st1 ?more) @
        [synoFetch (getBaseUrl ?more @ getApiPath ?more @ ''/entry.cgi?api='' @ a'
                    @ ''&version=1&method=list&type=photo&offset=0&limit=''
                    @ (if truthy (numPhotos ?more) then form_encode (js_String (numPhotos ?more)) else ''100'')
                    @ e' @ ''&_sid='' @ form_encode x'
                    @ ''&additional=%5B%22thumbnail%22%2C%22resolution%22%5D'')
           (serverUrl ?more)]"
    by blast
  have 3: "map req_url (wire (fetchPhotos example_world (start\<lparr>config := Some example_config\<rparr>))) =
     [''http://nas.local:5001/photo/webapi/auth.cgi?api=SYNO.API.Auth&version=6&method=login&account=me&passwd=pw'',
      ''https://nas.local:5001/photo/webapi/entry.cgi?api=SYNO.Foto.Browse.Item&version=1&method=list&type=photo&offset=0&limit=100&album_id=7&_sid=S1dT0ken&additional=%5B%22thumbnail%22%2C%22resolution%22%5D'']"
    unfolding fetchPhotos_logged_in [OF c example_world_login] wire_process_listing source_request
    by (simp add: eval_helper eval_strings Let_def)
  have 4: "map req_url (wire (fetchPhotos example_world (start\<lparr>config := Some ?more\<rparr>))) =
     [''http://nas.local:5001/photo/webapi/auth.cgi?api=SYNO.API.Auth&version=6&method=login&account=me&passwd=pw'',
      ''https://nas.local:5001/photo/webapi/entry.cgi?api=SYNO.Foto.Browse.Item&version=1&method=list&type=photo&offset=0&limit=25&album_id=7&_sid=S1dT0ken&additional=%5B%22thumbnail%22%2C%22resolution%22%5D'']"
    unfolding fetchPhotos_logged_in [OF c example_world_login] wire_process_listing source_request
    by (simp add: eval_helper eval_strings Let_def)
  from 1 2 3 4 n show ?thesis by simp
qed

section \<open>Filtering, normalizing and ordering\<close>

subsection \<open>Ordering keeps the photos\<close>

lemma mset_insert_cmp: "mset (insert_cmp cmp a xs) = add_mset a (mset xs)"
  by (induction xs) auto

lemma mset_array_sort: "mset (array_sort cmp xs) = mset xs"
  by (induction xs) (auto simp: array_sort_def mset_insert_cmp)

lemma set_insert_cmp: "set (insert_cmp cmp a xs) = insert a (set xs)"
  by (induction xs) auto

lemma set_array_sort: "set (array_sort cmp xs) = set xs"
  using mset_array_sort [of cmp xs] by (metis set_mset_mset)

text \<open>On photos that all have a time the comparator is the difference of the times, and
  insertion keeps a list ordered by descending time.\<close>

lemma sorted_insert_by_time:
  assumes "sorted_wrt (\<lambda>a b. \<exists>x y. photo_time a = Some x \<and> photo_time b = Some y \<and> y \<le> x) xs"
    and "photo_time p \<noteq> None" and "\<forall>q\<in>set xs. photo_time q \<noteq> None"
  shows "sorted_wrt (\<lambda>a b. \<exists>x y. photo_time a = Some x \<and> photo_time b = Some y \<and> y \<le> x)
           (insert_cmp by_time_desc p xs)"
  using assms
proof (induction xs)
  case Nil
  then show ?case by simp
next
  case (Cons q xs)
  obtain tp tq where t: "photo_time p = Some tp" "photo_time q = Some tq"
    using Cons.prems by auto
  show ?case
  proof (cases "tq \<le> tp")
    case True
    then have "insert_cmp by_time_desc p (q # xs) = p # q # xs"
      using t by (simp add: sort_compare_def by_time_desc_def)
    moreover have "\<forall>r\<in>set (q # xs). \<exists>x y. photo_time p = Some x \<and> photo_time r = Some y \<and> y \<le> x"
      using Cons.prems(1) t True by fastforce
    ultimately show ?thesis using Cons.prems(1) by simp
  next
    case False
    then have i: "insert_cmp by_time_desc p (q # xs) = q # insert_cmp by_time_desc p xs"
      using t by (simp add: sort_compare_def by_time_desc_def)
    have "sorted_wrt (\<lambda>a b. \<exists>x y. photo_time a = Some x \<and> photo_time b = Some y \<and> y \<le> x)
            (insert_cmp by_time_desc p xs)"
      using Cons by simp
    moreover have "\<forall>r\<in>set (insert_cmp by_time_desc p xs).
                     \<exists>x y. photo_time q = Some x \<and> photo_time r = Some y \<and> y \<le> x"
      using Cons.prems(1) t False by (auto simp: set_insert_cmp)
    ultimately show ?thesis unfolding i by simp
  qed
qed

lemma sorted_array_sort_by_time:
  "\<forall>q\<in>set xs. photo_time q \<noteq> None \<Longrightarrow>
   sorted_wrt (\<lambda>a b. \<exists>x y. photo_time a = Some x \<and> photo_time b = Some y \<and> y \<le> x)
     (array_sort by_time_desc xs)"
proof (induction xs)
  case Nil
  then show ?case by (simp add: array_sort_def)
next
  case (Cons p xs)
  have "array_sort by_time_desc (p # xs) = insert_cmp by_time_desc p (array_sort by_time_desc xs)"
    by (simp add: array_sort_def)
  moreover have "sorted_wrt (\<lambda>a b. \<exists>x y. photo_time a = Some x \<and> photo_time b = Some y \<and> y \<le> x)
                   (insert_cmp by_time_desc p (array_sort by_time_desc xs))"
    using Cons by (intro sorted_insert_by_time) (simp_all add: set_array_sort)
  ultimately show ?case by simp
qed

lemma length_shuffle_loop: "length (shuffle_loop rnd i xs) = length xs"
  by (induction i arbitrary: xs) (auto simp: Let_def)

lemma mset_shuffle_loop: "i < length xs \<Longrightarrow> mset (shuffle_loop rnd i xs) = mset xs"
proof (induction i arbitrary: xs)
  case 0
  then show ?case by simp
next
  case (Suc i)
  let ?j = "rnd (Suc i) mod (Suc i + 1)"
  have "?j < Suc i + 1" by (rule mod_less_divisor) simp
  then have j: "?j < length xs" using Suc.prems by linarith
  have "mset (xs[Suc i := xs ! ?j, ?j := xs ! Suc i]) = mset xs"
    using Suc.prems j by (simp add: mset_swap)
  moreover have "i < length (xs[Suc i := xs ! ?j, ?j := xs ! Suc i])"
    using Suc.prems by simp
  ultimately show ?case using Suc.IH by (simp add: Let_def)
qed

lemma mset_shuffle_photos: "mset (shuffle_photos rnd xs) = mset xs"
proof (cases xs)
  case Nil
  then show ?thesis by (simp add: shuffle_photos_def)
next
  case (Cons x ys)
  then show ?thesis by (simp add: shuffle_photos_def mset_shuffle_loop)
qed

lemma publish_photos:
  "photos (publish w cfg ps st) =
     (if truthy (shuffle cfg) then shuffle_photos (random w) ps
      else if sortBy cfg = JStr ''time'' then array_sort by_time_desc ps
      else ps)"
  by (simp add: publish_def sendSocketNotification_def Let_def)

lemma mset_publish: "mset (photos (publish w cfg ps st)) = mset ps"
  by (simp add: publish_photos mset_shuffle_photos mset_array_sort)

subsection \<open>The callbacks on a listing\<close>

lemma filter_throwing_objects:
  "filter_throwing (\<lambda>e. case e of None \<Rightarrow> None | Some p \<Rightarrow> Some (P p)) (map Some l) =
     Some (map Some (filter P l))"
  by (induction l) auto

lemma filter_throwing_null:
  "None \<in> set xs \<Longrightarrow> filter_throwing (\<lambda>e. case e of None \<Rightarrow> None | Some p \<Rightarrow> Some (P p)) xs = None"
  by (induction xs) (auto split: option.splits)

lemma listing_cases: "None \<in> set xs \<or> (\<exists>l. xs = map Some l)"
proof (cases "None \<in> set xs")
  case True
  then show ?thesis by simp
next
  case False
  then have "xs = map Some (map the xs)"
    by (induction xs) auto
  then show ?thesis by (intro disjI2 exI)
qed

lemma map_throwing_objects:
  "(\<And>p. p \<in> set l \<Longrightarrow> g p \<noteq> None) \<Longrightarrow>
   \<exists>ps. map_throwing (\<lambda>e. case e of None \<Rightarrow> None | Some p \<Rightarrow> g p) (map Some l) = Some ps
        \<and> list_all2 (\<lambda>p ph. g p = Some ph) l ps"
  by (induction l) (auto split: option.splits)

lemma filter_callback_eq:
  "filter_callback sz = (\<lambda>e. case e of None \<Rightarrow> None | Some p \<Rightarrow> Some (has_ready_thumbnail sz p))"
  "filter_callback_direct sz = (\<lambda>e. case e of None \<Rightarrow> None | Some p \<Rightarrow> Some (has_ready_thumbnail_direct sz p))"
  by (auto simp: filter_callback_def filter_callback_direct_def)

lemma map_callback_eq:
  "map_callback cfg st sz = (\<lambda>e. case e of None \<Rightarrow> None | Some p \<Rightarrow> toPhoto cfg st sz p)"
  "map_callback_direct cfg st sz = (\<lambda>e. case e of None \<Rightarrow> None | Some p \<Rightarrow> toPhoto_direct cfg st sz p)"
  by (auto simp: map_callback_def map_callback_direct_def)

lemma toPhoto_ready: "has_ready_thumbnail sz p \<Longrightarrow> toPhoto cfg st sz p \<noteq> None"
  by (auto simp: has_ready_thumbnail_def toPhoto_def buildThumbnailUrl_def Let_def split: option.splits)






lemma process_listing_ok:
  assumes "photoList_of r = Inr (map Some l)"
  shows "\<exists>ps. list_all2 (\<lambda>p ph. toPhoto cfg st sz p = Some ph) (filter (has_ready_thumbnail sz) l) ps
            \<and> process_listing w cfg sz r st = publish w cfg ps st"
proof -
  obtain ps where "map_throwing (map_callback cfg st sz) (map Some (filter (has_ready_thumbnail sz) l)) = Some ps"
    and "list_all2 (\<lambda>p ph. toPhoto cfg st sz p = Some ph) (filter (has_ready_thumbnail sz) l) ps"
    using map_throwing_objects [of "filter (has_ready_thumbnail sz) l" "toPhoto cfg st sz"] toPhoto_ready
    unfolding map_callback_eq by auto
  then show ?thesis
    using assms by (auto simp: process_listing_def filter_callback_eq(1) filter_throwing_objects)
qed


lemma process_listing_failed:
  assumes "photoList_of r = Inl e"
  shows "process_listing w cfg sz r st = fetch_catch e st"
  using assms by (simp add: process_listing_def)

lemma process_listing_null:
  assumes "photoList_of r = Inr xs" and "None \<in> set xs"
  shows "process_listing w cfg sz r st = fetch_catch TypeErrorMessage st"
  using assms by (simp add: process_listing_def filter_callback_eq(1) filter_throwing_null)

lemma fetch_source_fields:
  "photos (snd (fetch_source w cfg st lim)) = photos st"
  "outbox (snd (fetch_source w cfg st lim)) = outbox st"
  "sid (snd (fetch_source w cfg st lim)) = sid st"
  "refreshTimer (snd (fetch_source w cfg st lim)) = refreshTimer st"
  by (simp_all add: fetch_source_def fetchAlbumPhotos_def fetchFolderPhotos_def fetchTeamPhotos_def
        fetchPersonalPhotos_def send_entry_fields)

lemma fetch_source_reply:
  "\<exists>ps. fst (fetch_source w cfg st lim) = api w (entry_request cfg ps)"
  by (auto simp: fetch_source_def fetchAlbumPhotos_def fetchFolderPhotos_def fetchTeamPhotos_def
        fetchPersonalPhotos_def send_entry_fields)

lemma fetch_source_answer:
  assumes "\<And>ps. api w (entry_request cfg ps) = r"
  shows "fst (fetch_source w cfg st lim) = r"
  using fetch_source_reply [of w cfg st lim] assms by metis

subsection \<open>The second copy\<close>





subsection \<open>The catalog of a successful cycle\<close>


lemma example_login:
  "login example_world example_config example_state =
     (True, example_state\<lparr>wire := [login_request example_config JNull], sid := JStr ''S1dT0ken''\<rparr>)"
  by (simp add: login_def loadDeviceToken_def example_world_def example_state_def start_def Let_def)


lemma example_config_state: "config example_state = Some example_config"
  by (simp add: example_state_def)

lemmas eval_listing = fetch_source_def fetchAlbumPhotos_def send_entry_def process_listing_def
  photoList_of_def filter_callback_def map_callback_def has_ready_thumbnail_def thumb_entry_def
  toPhoto_def buildThumbnailUrl_def array_sort_def sort_compare_def by_time_desc_def Let_def


lemma example_ids:
  "map photo_id (photos (fetchPhotos example_world example_state)) = [JNum 3, JNum 1]"
  unfolding fetchPhotos_logged_in [OF example_config_state example_login]
  by (simp add: eval_listing publish_photos example_world_def example_config_def example_items_def)




subsection \<open>The outcome of a cycle\<close>

lemma process_listing_cases:
  "(\<exists>e. process_listing w cfg sz r st = fetch_catch e st)
   \<or> (\<exists>items ps. list_all2 (\<lambda>p ph. toPhoto cfg st sz p = Some ph) items ps
          \<and> process_listing w cfg sz r st = publish w cfg ps st)"
proof (cases "photoList_of r")
  case (Inl e)
  then show ?thesis using process_listing_failed by blast
next
  case (Inr xs)
  from listing_cases [of xs] show ?thesis
  proof
    assume "None \<in> set xs"
    with Inr show ?thesis using process_listing_null by blast
  next
    assume "\<exists>l. xs = map Some l"
    then obtain l where "photoList_of r = Inr (map Some l)" using Inr by blast
    from process_listing_ok [OF this, of cfg st sz w] show ?thesis by blast
  qed
qed

text \<open>Every cycle sends exactly one notification; a data notification carries the stored
  catalog.\<close>

lemma fetchPhotos_outcome:
  "(photos (fetchPhotos w st) = photos st \<and> (\<exists>e. outbox (fetchPhotos w st) = outbox st @ [SYNOLOGY_PHOTOS_ERROR e]))
   \<or> (\<exists>cfg ps st2 items. config st = Some cfg \<and> fetchPhotos w st = publish w cfg ps st2
         \<and> list_all2 (\<lambda>p ph. toPhoto cfg st2
                              (if thumbnailSize cfg \<noteq> [] then thumbnailSize cfg else ''xl'') p = Some ph) items ps
         \<and> outbox (fetchPhotos w st) = outbox st @ [SYNOLOGY_PHOTOS_DATA (photos (fetchPhotos w st))])"
proof (cases "config st")
  case None
  then show ?thesis by (simp add: fetchPhotos_def fetch_catch_fields)
next
  case (Some cfg)
  show ?thesis
  proof (cases "fst (login w cfg st)")
    case False
    then have "login w cfg st = (False, snd (login w cfg st))"
      by (metis prod.collapse)
    from fetchPhotos_login_failed [OF Some this] show ?thesis
      by (simp add: sendSocketNotification_def login_fields)
  next
    case True
    then have l: "login w cfg st = (True, snd (login w cfg st))"
      by (metis prod.collapse)
    let ?src = "fetch_source w cfg (snd (login w cfg st)) (js_or (numPhotos cfg) (JNum 100))"
    let ?sz = "if thumbnailSize cfg \<noteq> [] then thumbnailSize cfg else ''xl''"
    have f: "fetchPhotos w st = process_listing w cfg ?sz (fst ?src) (snd ?src)"
      by (rule fetchPhotos_logged_in [OF Some l])
    have p: "photos (snd ?src) = photos st" and o: "outbox (snd ?src) = outbox st"
      by (simp_all add: fetch_source_fields login_fields)
    from process_listing_cases [of w cfg ?sz "fst ?src" "snd ?src"] show ?thesis
    proof
      assume "\<exists>e. process_listing w cfg ?sz (fst ?src) (snd ?src) = fetch_catch e (snd ?src)"
      then obtain e where "fetchPhotos w st = fetch_catch e (snd ?src)"
        unfolding f by blast
      then show ?thesis by (simp add: fetch_catch_fields p o)
    next
      assume "\<exists>items ps. list_all2 (\<lambda>p ph. toPhoto cfg (snd ?src) ?sz p = Some ph) items ps
                \<and> process_listing w cfg ?sz (fst ?src) (snd ?src) = publish w cfg ps (snd ?src)"
      then obtain items ps where a: "list_all2 (\<lambda>p ph. toPhoto cfg (snd ?src) ?sz p = Some ph) items ps"
        and q: "fetchPhotos w st = publish w cfg ps (snd ?src)"
        unfolding f by blast
      have "outbox (fetchPhotos w st) = outbox st @ [SYNOLOGY_PHOTOS_DATA (photos (fetchPhotos w st))]"
        unfolding q using publish_fields(2) [of w cfg ps "snd ?src"] o by simp
      then show ?thesis using Some a q by blast
    qed
  qed
qed

subsection \<open>Sorting by time\<close>

text \<open>
  Claim C7, as amended. With shuffle disabled and \<^verbatim>\<open>sortBy\<close> equal to \<^verbatim>\<open>"time"\<close>, if every
  photo of the catalog carries a time, the photo sequence sent in the data notification of a
  fetch cycle (which is also the stored catalog) is non-increasing in \<^verbatim>\<open>time\<close>: most recent
  first.
\<close>

theorem sorted_by_time_descending:
  assumes "config st = Some cfg" and "\<not> truthy (shuffle cfg)" and "sortBy cfg = JStr ''time''"
    and "outbox (fetchPhotos w st) = outbox st @ [SYNOLOGY_PHOTOS_DATA ps]"
    and "\<forall>ph\<in>set ps. photo_time ph \<noteq> None"
  shows "sorted_wrt (\<lambda>a b. \<exists>x y. photo_time a = Some x \<and> photo_time b = Some y \<and> y \<le> x) ps
       \<and> photos (fetchPhotos w st) = ps"
proof -
  from fetchPhotos_outcome [of w st] assms(1,4)
  obtain qs st2 where p: "fetchPhotos w st = publish w cfg qs st2"
    and o: "ps = photos (fetchPhotos w st)"
    by auto
  have s: "photos (fetchPhotos w st) = array_sort by_time_desc qs"
    unfolding p using assms(2,3) by (simp add: publish_photos)
  then have "set qs = set ps"
    using o by (simp add: set_array_sort)
  then have "\<forall>q\<in>set qs. photo_time q \<noteq> None"
    using assms(5) by simp
  from sorted_array_sort_by_time [OF this] show ?thesis
    using o s by simp
qed

lemma example_outbox:
  "outbox (fetchPhotos example_world example_state) =
     outbox example_state @ [SYNOLOGY_PHOTOS_DATA (photos (fetchPhotos example_world example_state))]"
  using fetchPhotos_outcome [of example_world example_state] example_ids
  by (auto simp: example_state_def start_def)

lemma answering_login:
  "login (answering_world r) example_config st =
     (True, st\<lparr>wire := wire st @ [login_request example_config JNull], sid := JStr ''S4dT0ken''\<rparr>)"
  by (simp add: login_def loadDeviceToken_def answering_world_def Let_def login_request_def synoFetch_def
        login_baseUrl_def getApiPath_def isQuickConnect_def example_config_def login_params_def
        eval_strings)

lemma answering_browse:
  "api (answering_world r) (entry_request example_config ps) = r"
  by (simp add: answering_world_def entry_request_def synoFetch_def getBaseUrl_def getApiPath_def
        isQuickConnect_def example_config_def startsWith_def string_of_int_def string_of_nat.simps)

lemma answering_cycle:
  "fetchPhotos (answering_world r) example_state =
     process_listing (answering_world r) example_config ''sm'' r
       (snd (fetch_source (answering_world r) example_config
               (example_state\<lparr>wire := wire example_state @ [login_request example_config JNull],
                               sid := JStr ''S4dT0ken''\<rparr>)
               (js_or (numPhotos example_config) (JNum 100))))"
proof -
  have "fst (fetch_source (answering_world r) example_config
               (example_state\<lparr>wire := wire example_state @ [login_request example_config JNull],
                               sid := JStr ''S4dT0ken''\<rparr>)
               (js_or (numPhotos example_config) (JNum 100))) = r"
    by (rule fetch_source_answer) (rule answering_browse)
  moreover have "(if thumbnailSize example_config \<noteq> [] then thumbnailSize example_config else ''xl'') = ''sm''"
    by (simp add: example_config_def)
  ultimately show ?thesis
    using fetchPhotos_logged_in [OF example_config_state answering_login, of r] by simp
qed

text \<open>
  Claim C7, as stated for every fetch cycle, fails when an item has no \<^verbatim>\<open>time\<close>: the
  comparator then returns not-a-number, which \<^verbatim>\<open>sort\<close> reads as "equal". With shuffle
  disabled and \<^verbatim>\<open>sortBy\<close> equal to \<^verbatim>\<open>"time"\<close>, the listing with times 1, none, 3 is
  published in that order, 3 after 1.
\<close>

theorem missing_time_keeps_order_counterexample:
  "\<not> truthy (shuffle example_config) \<and> sortBy example_config = JStr ''time''
   \<and> map item_time timeless_items = [Some 1, None, Some 3]
   \<and> map photo_time (photos (fetchPhotos timeless_world example_state)) = [Some 1, None, Some 3]"
proof -
  have "map photo_time (photos (fetchPhotos timeless_world example_state)) = [Some 1, None, Some 3]"
    unfolding timeless_world_def answering_cycle
    by (simp add: process_listing_def photoList_of_def filter_callback_def map_callback_def
          has_ready_thumbnail_def thumb_entry_def toPhoto_def buildThumbnailUrl_def publish_photos
          array_sort_def sort_compare_def by_time_desc_def Let_def timeless_items_def example_config_def)
  then show ?thesis
    by (simp add: example_config_def timeless_items_def)
qed

text \<open>The example listing has times 100, 300, 200; the item of time 300 is dropped and the
  catalog has times 200, 100.\<close>

theorem sorted_by_time_descending_witness:
  "config example_state = Some example_config
   \<and> \<not> truthy (shuffle example_config) \<and> sortBy example_config = JStr ''time''
   \<and> map item_time example_items = [Some 100, Some 300, Some 200]
   \<and> map photo_time (photos (fetchPhotos example_world example_state)) = [Some 200, Some 100]
   \<and> sorted_wrt (\<lambda>a b. \<exists>x y. photo_time a = Some x \<and> photo_time b = Some y \<and> y \<le> x)
        (photos (fetchPhotos example_world example_state))"
proof -
  have s: "\<not> truthy (shuffle example_config)" and t: "sortBy example_config = JStr ''time''"
    by (simp_all add: example_config_def)
  have m: "map photo_time (photos (fetchPhotos example_world example_state)) = [Some 200, Some 100]"
    unfolding fetchPhotos_logged_in [OF example_config_state example_login]
    by (simp add: eval_listing publish_photos example_world_def example_config_def example_items_def)
  have d: "\<forall>ph\<in>set (photos (fetchPhotos example_world example_state)). photo_time ph \<noteq> None"
  proof
    fix ph
    assume "ph \<in> set (photos (fetchPhotos example_world example_state))"
    then have "photo_time ph \<in> set (map photo_time (photos (fetchPhotos example_world example_state)))"
      by simp
    then show "photo_time ph \<noteq> None" unfolding m by auto
  qed
  have i: "map item_time example_items = [Some 100, Some 300, Some 200]"
    by (simp add: example_items_def)
  from sorted_by_time_descending [OF example_config_state s t example_outbox d]
  show ?thesis using example_config_state s t m i by simp
qed

section \<open>The proxied thumbnail URL\<close>

lemma encodeURIComponent_append:
  "encodeURIComponent (a @ b) = encodeURIComponent a @ encodeURIComponent b"
  by (simp add: encodeURIComponent_def)

lemma encodeURIComponent_unreserved:
  "set s \<subseteq> set uri_unreserved \<Longrightarrow> encodeURIComponent s = s"
  by (induction s) (auto simp: encodeURIComponent_def)

lemma encodeURIComponent_sid_key: "encodeURIComponent ''&_sid='' = ''%26_sid%3D''"
  by (simp add: encodeURIComponent_def uri_unreserved_def alphanumerics_def percent_def hexdigit_def)

lemma toPhoto_url:
  assumes "toPhoto cfg st sz p = Some ph"
  shows "\<exists>u. buildThumbnailUrl cfg st p sz = Some u
            \<and> url ph = ''/synology-photos/image?url='' @ encodeURIComponent u
            \<and> suffix (''&_sid='' @ js_String (sid st)) u"
  using assms
  by (auto simp: toPhoto_def buildThumbnailUrl_def Let_def suffix_def split: option.splits)

lemma buildThumbnailUrl_sid:
  "sid st = sid st' \<Longrightarrow> buildThumbnailUrl cfg st p sz = buildThumbnailUrl cfg st' p sz"
  by (simp add: buildThumbnailUrl_def Let_def split: option.splits)

lemma sid_publish: "sid (publish w cfg ps st) = sid st"
  by (simp add: publish_def sendSocketNotification_def Let_def)

lemma set_publish: "set (photos (publish w cfg ps st)) = set ps"
  using mset_publish [of w cfg ps st] by (metis set_mset_mset)

text \<open>
  Claim C1, as amended. For every photo of the catalog sent by a fetch cycle, the \<^verbatim>\<open>url\<close>
  field is the local path \<^verbatim>\<open>/synology-photos/image?url=\<close> followed by
  \<^verbatim>\<open>encodeURIComponent\<close> of the signed thumbnail URL, which ends in \<^verbatim>\<open>&_sid=\<close> and the session
  id. So the \<^verbatim>\<open>url\<close> ends in \<^verbatim>\<open>%26_sid%3D\<close> followed by the percent-encoded session id, which
  is the session id itself when it consists of unreserved characters: the signed URL is
  wrapped, and the session id travels inside the wrapper.
\<close>

theorem proxied_url_wraps_signed_url:
  assumes "config st = Some cfg"
    and "outbox (fetchPhotos w st) = outbox st @ [SYNOLOGY_PHOTOS_DATA ps]"
    and "ph \<in> set ps"
  shows "\<exists>it u. buildThumbnailUrl cfg (fetchPhotos w st) it
                   (if thumbnailSize cfg \<noteq> [] then thumbnailSize cfg else ''xl'') = Some u
            \<and> url ph = ''/synology-photos/image?url='' @ encodeURIComponent u
            \<and> suffix (''&_sid='' @ js_String (sid (fetchPhotos w st))) u
            \<and> suffix (''%26_sid%3D'' @ encodeURIComponent (js_String (sid (fetchPhotos w st)))) (url ph)
            \<and> (set (js_String (sid (fetchPhotos w st))) \<subseteq> set uri_unreserved \<longrightarrow>
                  suffix (''%26_sid%3D'' @ js_String (sid (fetchPhotos w st))) (url ph))"
proof -
  let ?sz = "if thumbnailSize cfg \<noteq> [] then thumbnailSize cfg else ''xl''"
  from fetchPhotos_outcome [of w st] assms(1,2)
  obtain qs st2 items where p: "fetchPhotos w st = publish w cfg qs st2"
    and a: "list_all2 (\<lambda>p ph. toPhoto cfg st2 ?sz p = Some ph) items qs"
    and o: "ps = photos (fetchPhotos w st)"
    by auto
  have "ph \<in> set qs"
    using assms(3) o p set_publish [of w cfg qs st2] by simp
  then obtain it where "toPhoto cfg st2 ?sz it = Some ph"
    using a by (auto simp: list_all2_conv_all_nth in_set_conv_nth)
  from toPhoto_url [OF this]
  obtain u where b: "buildThumbnailUrl cfg st2 it ?sz = Some u"
    and u: "url ph = ''/synology-photos/image?url='' @ encodeURIComponent u"
    and s: "suffix (''&_sid='' @ js_String (sid st2)) u"
    by blast
  have e: "sid (fetchPhotos w st) = sid st2"
    unfolding p by (rule sid_publish)
  have b': "buildThumbnailUrl cfg (fetchPhotos w st) it ?sz = Some u"
    using b buildThumbnailUrl_sid [OF e] by simp
  from s obtain v where v: "u = v @ ''&_sid='' @ js_String (sid st2)"
    by (auto simp: suffix_def)
  have w: "suffix (''%26_sid%3D'' @ encodeURIComponent (js_String (sid st2))) (url ph)"
    unfolding u v encodeURIComponent_append encodeURIComponent_sid_key
    by (simp add: suffix_def)
  have x: "set (js_String (sid st2)) \<subseteq> set uri_unreserved \<longrightarrow>
             suffix (''%26_sid%3D'' @ js_String (sid st2)) (url ph)"
    using w encodeURIComponent_unreserved [of "js_String (sid st2)"] by auto
  show ?thesis
    unfolding e using b' u s w x by blast
qed

lemma example_sid: "sid (fetchPhotos example_world example_state) = JStr ''S1dT0ken''"
  unfolding fetchPhotos_logged_in [OF example_config_state example_login]
  by (simp add: eval_listing sid_publish example_world_def example_config_def example_items_def)

lemma example_first_url:
  "url (hd (photos (fetchPhotos example_world example_state))) =
     ''/synology-photos/image?url=https%3A%2F%2Fnas.local%3A5001%2Fphoto%2Fwebapi%2Fentry.cgi%3Fapi%3DSYNO.FotoTeam.Thumbnail%26version%3D1%26method%3Dget%26mode%3Ddownload%26id%3D3%26type%3Dunit%26size%3Dsm%26cache_key%3D3_k%26_sid%3DS1dT0ken''"
  unfolding fetchPhotos_logged_in [OF example_config_state example_login]
  by (simp add: eval_listing publish_photos example_world_def example_config_def example_items_def
        getBaseUrl_def getApiPath_def isQuickConnect_def
        encodeURIComponent_def uri_unreserved_def alphanumerics_def percent_def hexdigit_def
        string_of_int_def string_of_nat.simps)

text \<open>
  Claim C1, as stated ("the \<^verbatim>\<open>url\<close> field does not contain the session identifier"), fails:
  with the session id \<^verbatim>\<open>S1dT0ken\<close> the first photo of the example cycle has a \<^verbatim>\<open>url\<close> that
  contains it.
\<close>

theorem url_without_session_id_counterexample:
  "sid (fetchPhotos example_world example_state) = JStr ''S1dT0ken''
   \<and> photos (fetchPhotos example_world example_state) \<noteq> []
   \<and> url (hd (photos (fetchPhotos example_world example_state))) =
       ''/synology-photos/image?url=https%3A%2F%2Fnas.local%3A5001%2Fphoto%2Fwebapi%2Fentry.cgi%3Fapi%3DSYNO.FotoTeam.Thumbnail%26version%3D1%26method%3Dget%26mode%3Ddownload%26id%3D3%26type%3Dunit%26size%3Dsm%26cache_key%3D3_k%26_sid%3DS1dT0ken''
   \<and> str_includes (url (hd (photos (fetchPhotos example_world example_state)))) ''S1dT0ken''"
proof -
  have "photos (fetchPhotos example_world example_state) \<noteq> []"
    using example_ids by auto
  moreover have "str_includes (url (hd (photos (fetchPhotos example_world example_state)))) ''S1dT0ken''"
    unfolding example_first_url by simp
  ultimately show ?thesis
    using example_sid example_first_url by simp
qed

text \<open>
  The example cycle again: the first photo's \<^verbatim>\<open>url\<close> ends in the session id.
\<close>

theorem proxied_url_wraps_signed_url_witness:
  "config example_state = Some example_config
   \<and> hd (photos (fetchPhotos example_world example_state)) \<in> set (photos (fetchPhotos example_world example_state))
   \<and> suffix ''%26_sid%3DS1dT0ken'' (url (hd (photos (fetchPhotos example_world example_state))))"
proof -
  have n: "photos (fetchPhotos example_world example_state) \<noteq> []"
    using example_ids by auto
  then have h: "hd (photos (fetchPhotos example_world example_state)) \<in> set (photos (fetchPhotos example_world example_state))"
    by simp
  have "set ''S1dT0ken'' \<subseteq> set uri_unreserved"
    by (simp add: uri_unreserved_def alphanumerics_def)
  with proxied_url_wraps_signed_url [OF example_config_state example_outbox h]
  have "suffix ''%26_sid%3DS1dT0ken'' (url (hd (photos (fetchPhotos example_world example_state))))"
    unfolding example_sid by auto
  then show ?thesis using example_config_state h by simp
qed


section \<open>Failed cycles\<close>





lemma config_fetchPhotos: "config (fetchPhotos w st) = config st"
proof (cases "config st")
  case None
  then show ?thesis by (simp add: fetchPhotos_def fetch_catch_def sendSocketNotification_def)
next
  case (Some cfg)
  have c: "\<And>r s. config (process_listing w cfg sz r s) = config s" for sz
    by (simp add: process_listing_def fetch_catch_def publish_def sendSocketNotification_def Let_def
          split: sum.splits option.splits)
  have d: "\<And>s lim. config (snd (fetch_source w cfg s lim)) = config s"
    by (simp add: fetch_source_def fetchAlbumPhotos_def fetchFolderPhotos_def fetchTeamPhotos_def
          fetchPersonalPhotos_def send_entry_def Let_def)
  show ?thesis
  proof (cases "fst (login w cfg st)")
    case True
    then have "login w cfg st = (True, snd (login w cfg st))" by (metis prod.collapse)
    from fetchPhotos_logged_in [OF Some this] show ?thesis
      by (simp add: c d login_fields)
  next
    case False
    then have "login w cfg st = (False, snd (login w cfg st))" by (metis prod.collapse)
    from fetchPhotos_login_failed [OF Some this] show ?thesis
      by (simp add: sendSocketNotification_def login_fields)
  qed
qed






section \<open>The proxy route\<close>

text \<open>
  Claim C8, as amended. A proxy request whose \<^verbatim>\<open>url\<close> parameter is missing or empty is
  answered with status 400 and no call to \<^verbatim>\<open>fetch\<close>. A non-empty target is not validated:
  once the helper has a configuration, it is handed to \<^verbatim>\<open>fetch\<close> exactly once; a non-success
  upstream response is passed through with its status and status text; a thrown exception
  gives the 500 response \<^verbatim>\<open>Proxy error\<close>.
\<close>

theorem proxy_route_outcomes:
  "(q = QMissing \<or> q = QString [] \<longrightarrow>
            res_status (fst (image_route w st q)) = 400 \<and> wire (snd (image_route w st q)) = wire st)
       \<and> (\<forall>t cfg. q = QString t \<and> t \<noteq> [] \<and> config st = Some cfg \<longrightarrow>
            wire (snd (image_route w st q)) = wire st @ [synoFetch t (serverUrl cfg)]
            \<and> (\<forall>r. upstream w (synoFetch t (serverUrl cfg)) = Response r \<and> \<not> (200 \<le> status r \<and> status r < 300) \<longrightarrow>
                  res_status (fst (image_route w st q)) = status r
                  \<and> res_body (fst (image_route w st q)) = statusText r)
            \<and> (\<forall>m. upstream w (synoFetch t (serverUrl cfg)) = FetchThrew m \<longrightarrow>
                  fst (image_route w st q) = proxy_error))
       \<and> res_status proxy_error = 500"
  by (auto simp: image_route_def proxy_error_def Let_def split: query_value.splits fetch_result.splits)

text \<open>
  Claim C8, as stated, fails for a malformed target: the target \<^verbatim>\<open>not a url\<close> is handed to
  \<^verbatim>\<open>fetch\<close>, whose rejection is answered with status 500, and a repeated \<^verbatim>\<open>url\<close> parameter is
  answered with status 500 as well; neither is a client-error status.
\<close>

theorem malformed_target_is_client_error_counterexample:
  "config previous_state = Some example_config
   \<and> upstream offline_world (synoFetch ''not a url'' (serverUrl example_config)) = FetchThrew ''connect ECONNREFUSED''
   \<and> res_status (fst (image_route offline_world previous_state (QString ''not a url''))) = 500
   \<and> wire (snd (image_route offline_world previous_state (QString ''not a url''))) =
        wire previous_state @ [synoFetch ''not a url'' ''nas.local'']
   \<and> res_status (fst (image_route offline_world previous_state (QArray [''a'', ''b'']))) = 500"
proof -
  have c: "config previous_state = Some example_config"
    unfolding previous_state_def by (simp add: config_fetchPhotos example_config_state)
  show ?thesis
    by (simp add: c image_route_def proxy_error_def offline_world_def example_config_def Let_def)
qed

text \<open>
  A missing parameter gives 400; an upstream 404 is passed through; a refused connection
  gives 500.
\<close>

theorem proxy_route_outcomes_witness:
  "res_status (fst (image_route refusing_world previous_state QMissing)) = 400
   \<and> wire (snd (image_route refusing_world previous_state QMissing)) = wire previous_state
   \<and> config previous_state = Some example_config
   \<and> upstream refusing_world (synoFetch ''https://nas.local:5001/x'' (serverUrl example_config)) =
        Response \<lparr>status = 404, statusText = ''Not Found'', content_type = None, body = []\<rparr>
   \<and> res_status (fst (image_route refusing_world previous_state (QString ''https://nas.local:5001/x''))) = 404
   \<and> upstream offline_world (synoFetch ''https://nas.local:5001/x'' (serverUrl example_config)) =
        FetchThrew ''connect ECONNREFUSED''
   \<and> res_status (fst (image_route offline_world previous_state (QString ''https://nas.local:5001/x''))) = 500"
proof -
  have c: "config previous_state = Some example_config"
    unfolding previous_state_def by (simp add: config_fetchPhotos example_config_state)
  have u: "upstream refusing_world (synoFetch ''https://nas.local:5001/x'' (serverUrl example_config)) =
        Response \<lparr>status = 404, statusText = ''Not Found'', content_type = None, body = []\<rparr>"
    by (simp add: refusing_world_def)
  have v: "upstream offline_world (synoFetch ''https://nas.local:5001/x'' (serverUrl example_config)) =
        FetchThrew ''connect ECONNREFUSED''"
    by (simp add: offline_world_def)
  from proxy_route_outcomes [of QMissing refusing_world previous_state]
  have 1: "res_status (fst (image_route refusing_world previous_state QMissing)) = 400
           \<and> wire (snd (image_route refusing_world previous_state QMissing)) = wire previous_state"
    by blast
  from proxy_route_outcomes [of "QString ''https://nas.local:5001/x''" refusing_world previous_state] c u
  have 2: "res_status (fst (image_route refusing_world previous_state (QString ''https://nas.local:5001/x''))) = 404"
    by simp
  from proxy_route_outcomes [of "QString ''https://nas.local:5001/x''" offline_world previous_state] c v
  have 3: "res_status (fst (image_route offline_world previous_state (QString ''https://nas.local:5001/x''))) = 500"
    by simp
  from 1 2 3 c u v show ?thesis by blast
qed

section \<open>Endpoint resolution in the diagnostic driver\<close>

lemma query_relays_nothing:
  "(\<And>k u s srv. ask k u s \<noteq> RelayJson (Some srv)) \<Longrightarrow> query_relays ask i k urls cs = cs"
proof (induction urls arbitrary: k)
  case Nil
  then show ?case by simp
next
  case (Cons u urls)
  show ?case
  proof (cases "ask k u i")
    case (RelayThrew m)
    then show ?thesis using Cons by simp
  next
    case (RelayJson so)
    then have "so = None" using Cons.prems [of k u i] by (cases so) auto
    then show ?thesis using RelayJson Cons by simp
  qed
qed

text \<open>
  Claim C5. For every relay address, \<^verbatim>\<open>resolveQuickConnect\<close> returns a non-empty candidate
  list whose last element is the relay address itself, whatever the relay coordinators
  answer; when no relay query yields a \<^verbatim>\<open>server\<close> object (network error, malformed response,
  no \<^verbatim>\<open>server\<close> field), that candidate is the whole list. \<^verbatim>\<open>main\<close> takes this list for
  every address it classifies as a relay address.
\<close>

theorem relay_candidate_is_always_last:
  "resolveQuickConnect n d \<noteq> []
   \<and> last (resolveQuickConnect n d) = \<lparr>cand_url = ''https://'' @ d, label = ''QuickConnect''\<rparr>
   \<and> ((\<forall>k u s srv. relay n k u s \<noteq> RelayJson (Some srv)) \<longrightarrow>
         resolveQuickConnect n d = [\<lparr>cand_url = ''https://'' @ d, label = ''QuickConnect''\<rparr>])
   \<and> (server_isQuickConnect srv \<longrightarrow> main_candidates n srv = resolveQuickConnect n (host srv))"
proof -
  have "(\<forall>k u s srv. relay n k u s \<noteq> RelayJson (Some srv)) \<longrightarrow>
         resolveQuickConnect n d = [\<lparr>cand_url = ''https://'' @ d, label = ''QuickConnect''\<rparr>]"
    using query_relays_nothing [of "relay n"] by (simp add: resolveQuickConnect_def Let_def)
  moreover have "resolveQuickConnect n d \<noteq> []"
    and "last (resolveQuickConnect n d) = \<lparr>cand_url = ''https://'' @ d, label = ''QuickConnect''\<rparr>"
    by (simp_all add: resolveQuickConnect_def Let_def)
  moreover have "server_isQuickConnect srv \<longrightarrow> main_candidates n srv = resolveQuickConnect n (host srv)"
    by (simp add: main_candidates_def)
  ultimately show ?thesis by blast
qed

lemma example_parse_relay:
  "parseServer ''mynas.us.quickconnect.to'' =
     \<lparr>host = ''mynas.us.quickconnect.to'', server_port = JNull, server_isQuickConnect = True\<rparr>"
  by (simp add: parseServer_def strip_protocol_def strip_trailing_slashes_def Let_def)

text \<open>
  Both relay queries fail for \<^verbatim>\<open>mynas.us.quickconnect.to\<close>: one candidate, the address itself.
\<close>

theorem relay_candidate_is_always_last_witness:
  "server_isQuickConnect (parseServer ''mynas.us.quickconnect.to'')
   \<and> relay example_net 0 ''https://us.quickconnect.to/Serv.php'' ''mynas'' = RelayThrew ''getaddrinfo ENOTFOUND''
   \<and> relay example_net 1 ''https://global.quickconnect.to/Serv.php'' ''mynas'' = RelayJson None
   \<and> main_candidates example_net (parseServer ''mynas.us.quickconnect.to'') =
        [\<lparr>cand_url = ''https://mynas.us.quickconnect.to'', label = ''QuickConnect''\<rparr>]"
proof -
  have q: "server_isQuickConnect (parseServer ''mynas.us.quickconnect.to'')"
    and h: "host (parseServer ''mynas.us.quickconnect.to'') = ''mynas.us.quickconnect.to''"
    by (simp_all add: example_parse_relay)
  have f: "\<forall>k u s srv. relay example_net k u s \<noteq> RelayJson (Some srv)"
    by (simp add: example_net_def)
  from relay_candidate_is_always_last [of example_net "''mynas.us.quickconnect.to''" "parseServer ''mynas.us.quickconnect.to''"] q f h
  have "main_candidates example_net (parseServer ''mynas.us.quickconnect.to'') =
        [\<lparr>cand_url = ''https://mynas.us.quickconnect.to'', label = ''QuickConnect''\<rparr>]"
    by simp
  then show ?thesis using q by (simp add: example_net_def)
qed

lemma main_candidates_direct:
  "\<not> server_isQuickConnect srv \<Longrightarrow>
   main_candidates n srv =
     [\<lparr>cand_url = (if server_port srv = JNum 5000 then ''http'' else ''https'') @ ''://'' @ host srv @ '':'' @ js_String (server_port srv),
       label = ''Direct''\<rparr>]"
  by (simp add: main_candidates_def Let_def)

lemma try_candidates_single:
  assumes "cand_url c \<noteq> []"
  shows "try_candidates n h [c] (None, []) =
     (if is_ok (testApiEndpoint (probe n 0) (cand_url c) ''/webapi'' h)
      then (Some (cand_url c, ''/webapi''), [(cand_url c, ''/webapi'')])
      else if is_ok (testApiEndpoint (probe n 1) (cand_url c) ''/photo/webapi'' h)
      then (Some (cand_url c, ''/photo/webapi''), [(cand_url c, ''/webapi''), (cand_url c, ''/photo/webapi'')])
      else (None, [(cand_url c, ''/webapi''), (cand_url c, ''/photo/webapi'')]))"
  using assms by (simp add: Let_def)

text \<open>
  Claim C4, as amended. For every direct (non-relay) address the diagnostic driver produces
  exactly one candidate and probes it with \<^verbatim>\<open>/webapi\<close> first and with \<^verbatim>\<open>/photo/webapi\<close> only
  when the first probe yields no valid API-info response, adopting the first path that
  answers. The node helper does not probe: for every direct address it uses the fixed prefix
  \<^verbatim>\<open>/photo/webapi\<close>.
\<close>

theorem direct_address_paths:
  assumes "\<not> server_isQuickConnect (parseServer a)"
  shows "(\<exists>c. main_candidates n (parseServer a) = [c]
            \<and> find_nas n a =
                (if is_ok (testApiEndpoint (probe n 0) (cand_url c) ''/webapi'' (host (parseServer a)))
                 then (Some (cand_url c, ''/webapi''), [(cand_url c, ''/webapi'')])
                 else if is_ok (testApiEndpoint (probe n 1) (cand_url c) ''/photo/webapi'' (host (parseServer a)))
                 then (Some (cand_url c, ''/photo/webapi''), [(cand_url c, ''/webapi''), (cand_url c, ''/photo/webapi'')])
                 else (None, [(cand_url c, ''/webapi''), (cand_url c, ''/photo/webapi'')])))
       \<and> (\<forall>cfg. \<not> isQuickConnect cfg \<longrightarrow> getApiPath cfg = ''/photo/webapi'')"
proof -
  let ?c = "\<lparr>cand_url = (if server_port (parseServer a) = JNum 5000 then ''http'' else ''https'')
                 @ ''://'' @ host (parseServer a) @ '':'' @ js_String (server_port (parseServer a)),
              label = ''Direct''\<rparr>"
  have m: "main_candidates n (parseServer a) = [?c]"
    using assms by (rule main_candidates_direct)
  have "cand_url ?c \<noteq> []" by simp
  from try_candidates_single [OF this, of n "host (parseServer a)"]
  have "find_nas n a =
                (if is_ok (testApiEndpoint (probe n 0) (cand_url ?c) ''/webapi'' (host (parseServer a)))
                 then (Some (cand_url ?c, ''/webapi''), [(cand_url ?c, ''/webapi'')])
                 else if is_ok (testApiEndpoint (probe n 1) (cand_url ?c) ''/photo/webapi'' (host (parseServer a)))
                 then (Some (cand_url ?c, ''/photo/webapi''), [(cand_url ?c, ''/webapi''), (cand_url ?c, ''/photo/webapi'')])
                 else (None, [(cand_url ?c, ''/webapi''), (cand_url ?c, ''/photo/webapi'')]))"
    unfolding find_nas_def Let_def m .
  with m have "\<exists>c. main_candidates n (parseServer a) = [c]
            \<and> find_nas n a =
                (if is_ok (testApiEndpoint (probe n 0) (cand_url c) ''/webapi'' (host (parseServer a)))
                 then (Some (cand_url c, ''/webapi''), [(cand_url c, ''/webapi'')])
                 else if is_ok (testApiEndpoint (probe n 1) (cand_url c) ''/photo/webapi'' (host (parseServer a)))
                 then (Some (cand_url c, ''/photo/webapi''), [(cand_url c, ''/webapi''), (cand_url c, ''/photo/webapi'')])
                 else (None, [(cand_url c, ''/webapi''), (cand_url c, ''/photo/webapi'')]))"
    by (intro exI [of _ ?c] conjI)
  moreover have "\<forall>cfg. \<not> isQuickConnect cfg \<longrightarrow> getApiPath cfg = ''/photo/webapi''"
    by (simp add: getApiPath_def)
  ultimately show ?thesis by blast
qed

lemma example_parse_direct:
  "parseServer ''192.168.1.100:5001'' =
     \<lparr>host = ''192.168.1.100'', server_port = JNum 5001, server_isQuickConnect = False\<rparr>"
  by (simp add: parseServer_def strip_protocol_def strip_trailing_slashes_def Let_def part_def
        parseInt10_def nat_of_digits_def)

text \<open>
  For \<^verbatim>\<open>192.168.1.100:5001\<close>, with a first probe that gets an HTML page: one candidate, two
  probes in that order, \<^verbatim>\<open>/photo/webapi\<close> adopted.
\<close>

theorem direct_address_paths_witness:
  "\<not> server_isQuickConnect (parseServer ''192.168.1.100:5001'')
   \<and> main_candidates example_net (parseServer ''192.168.1.100:5001'') =
        [\<lparr>cand_url = ''https://192.168.1.100:5001'', label = ''Direct''\<rparr>]
   \<and> find_nas example_net ''192.168.1.100:5001'' =
        (Some (''https://192.168.1.100:5001'', ''/photo/webapi''),
         [(''https://192.168.1.100:5001'', ''/webapi''), (''https://192.168.1.100:5001'', ''/photo/webapi'')])"
proof -
  have d: "\<not> server_isQuickConnect (parseServer ''192.168.1.100:5001'')"
    by (simp add: example_parse_direct)
  have m: "main_candidates example_net (parseServer ''192.168.1.100:5001'') =
        [\<lparr>cand_url = ''https://192.168.1.100:5001'', label = ''Direct''\<rparr>]"
    by (simp add: main_candidates_def example_parse_direct string_of_int_def string_of_nat.simps)
  have p0: "\<not> is_ok (testApiEndpoint (probe example_net 0) ''https://192.168.1.100:5001'' ''/webapi'' ''192.168.1.100'')"
    by (simp add: testApiEndpoint_def example_net_def is_ok_def startsWith_def Let_def)
  have p1: "is_ok (testApiEndpoint (probe example_net 1) ''https://192.168.1.100:5001'' ''/photo/webapi'' ''192.168.1.100'')"
    by (simp add: testApiEndpoint_def example_net_def is_ok_def startsWith_def Let_def)
  from direct_address_paths [OF d, of example_net] m p0 p1
  have "find_nas example_net ''192.168.1.100:5001'' =
        (Some (''https://192.168.1.100:5001'', ''/photo/webapi''),
         [(''https://192.168.1.100:5001'', ''/webapi''), (''https://192.168.1.100:5001'', ''/photo/webapi'')])"
    by (simp add: example_parse_direct)
  then show ?thesis using d m by simp
qed

text \<open>
  Claim C4, as stated for every endpoint resolution, fails in the node helper: for the
  direct address \<^verbatim>\<open>nas.local\<close> the path is \<^verbatim>\<open>/photo/webapi\<close> and the requests of a fetch cycle
  go there at once; no request to \<^verbatim>\<open>/webapi\<close> is made first.
\<close>

theorem helper_tries_webapi_first_counterexample:
  "\<not> isQuickConnect example_config
   \<and> getApiPath example_config = ''/photo/webapi''
   \<and> map req_url (wire (fetchPhotos example_world example_state)) =
       [''http://nas.local:5001/photo/webapi/auth.cgi?api=SYNO.API.Auth&version=6&method=login&account=me&passwd=pw'',
        ''https://nas.local:5001/photo/webapi/entry.cgi?api=SYNO.Foto.Browse.Item&version=1&method=list&type=photo&offset=0&limit=100&album_id=7&_sid=S1dT0ken&additional=%5B%22thumbnail%22%2C%22resolution%22%5D'']"
proof -
  have "wire (snd (fetch_source example_world example_config
           (example_state\<lparr>wire := [login_request example_config JNull], sid := JStr ''S1dT0ken''\<rparr>)
           (js_or (numPhotos example_config) (JNum 100)))) =
        [login_request example_config JNull,
         entry_request example_config
           (fetchAlbumPhotos_params (example_state\<lparr>wire := [login_request example_config JNull], sid := JStr ''S1dT0ken''\<rparr>)
              (JNum 7) (JNum 0) (JNum 100))]"
    unfolding wire_fetch_source by (simp add: example_config_def js_or_def)
  then have "map req_url (wire (fetchPhotos example_world example_state)) =
       [''http://nas.local:5001/photo/webapi/auth.cgi?api=SYNO.API.Auth&version=6&method=login&account=me&passwd=pw'',
        ''https://nas.local:5001/photo/webapi/entry.cgi?api=SYNO.Foto.Browse.Item&version=1&method=list&type=photo&offset=0&limit=100&album_id=7&_sid=S1dT0ken&additional=%5B%22thumbnail%22%2C%22resolution%22%5D'']"
    unfolding fetchPhotos_logged_in [OF example_config_state example_login] wire_process_listing
    by (simp add: eval_helper eval_strings Let_def)
  moreover have "\<not> isQuickConnect example_config" "getApiPath example_config = ''/photo/webapi''"
    by (simp_all add: getApiPath_def isQuickConnect_def example_config_def)
  ultimately show ?thesis by simp
qed

end
